theory Spec2Isabelle
  imports Complex_Main
begin

section \<open>Python numbers\<close>

text \<open>
  The agent's price memories are seeded with \<^verbatim>\<open>0.0\<close> and \<^verbatim>\<open>float("inf")\<close>, and one of
  its slack parameters defaults to \<^verbatim>\<open>float("inf")\<close>, so the arithmetic of
  \<^verbatim>\<open>learning_agent.py\<close> leaves the finite numbers: \<^verbatim>\<open>0.0 * (1 - inf)\<close> is \<^verbatim>\<open>nan\<close>.
  A Python number is modelled as a finite real, one of the two infinities, or NaN. The
  sum and the product of two finite numbers are rounded as binary64 arithmetic rounds
  them: to the nearest double, a tie going to the even one, and to an infinity beyond the
  largest double. The sign of zero is not modelled.
\<close>

datatype pnum = Fin real | PInf | NInf | NaN

text \<open>
  \<open>rne\<close> rounds a real to the nearest integer, a tie to the even one. \<open>ulp_exp x\<close> is the
  exponent of the spacing of the doubles around \<open>x\<close>: 52 below the exponent of \<open>x\<close>, and
  that of the subnormal numbers below \<open>2 powi (- 1022)\<close>. \<open>rnd x\<close> is the multiple of that
  spacing nearest to \<open>x\<close>, \<open>dmax\<close> the largest double, and \<open>fl x\<close> the result that an
  operation with the exact value \<open>x\<close> delivers. A double is a number that rounding
  leaves as it is, within the range.
\<close>

definition rne :: "real \<Rightarrow> int" where
  "rne y =
     (let f = \<lfloor>y\<rfloor>; d = y - of_int f in
      if d < 1 / 2 then f else if 1 / 2 < d then f + 1 else if even f then f else f + 1)"

definition ulp_exp :: "real \<Rightarrow> int" where
  "ulp_exp x = max \<lfloor>log 2 \<bar>x\<bar>\<rfloor> (- 1022) - 52"

definition rnd :: "real \<Rightarrow> real" where
  "rnd x = (if x = 0 then 0 else of_int (rne (x / 2 powi ulp_exp x)) * 2 powi ulp_exp x)"

definition dmax :: real where
  "dmax = (2 ^ 53 - 1) * 2 ^ 971"

definition fl :: "real \<Rightarrow> pnum" where
  "fl x = (let r = rnd x in if dmax < r then PInf else if r < - dmax then NInf else Fin r)"

definition is_double :: "real \<Rightarrow> bool" where
  "is_double x = (rnd x = x \<and> \<bar>x\<bar> \<le> dmax)"

fun fneg :: "pnum \<Rightarrow> pnum" where
  "fneg (Fin a) = Fin (- a)"
| "fneg PInf = NInf"
| "fneg NInf = PInf"
| "fneg NaN = NaN"

fun fadd :: "pnum \<Rightarrow> pnum \<Rightarrow> pnum" where
  "fadd (Fin a) (Fin b) = fl (a + b)"
| "fadd NaN _ = NaN"
| "fadd _ NaN = NaN"
| "fadd PInf NInf = NaN"
| "fadd NInf PInf = NaN"
| "fadd PInf _ = PInf"
| "fadd _ PInf = PInf"
| "fadd NInf _ = NInf"
| "fadd _ NInf = NInf"

definition fsub :: "pnum \<Rightarrow> pnum \<Rightarrow> pnum" where
  "fsub a b = fadd a (fneg b)"

text \<open>An infinity (the positive one when the flag is set) times a finite number.\<close>

definition inf_times :: "bool \<Rightarrow> real \<Rightarrow> pnum" where
  "inf_times pos a = (if a = 0 then NaN else if (0 < a) = pos then PInf else NInf)"

fun fmul :: "pnum \<Rightarrow> pnum \<Rightarrow> pnum" where
  "fmul (Fin a) (Fin b) = fl (a * b)"
| "fmul NaN _ = NaN"
| "fmul _ NaN = NaN"
| "fmul PInf (Fin b) = inf_times True b"
| "fmul NInf (Fin b) = inf_times False b"
| "fmul (Fin a) PInf = inf_times True a"
| "fmul (Fin a) NInf = inf_times False a"
| "fmul PInf PInf = PInf"
| "fmul NInf NInf = PInf"
| "fmul PInf NInf = NInf"
| "fmul NInf PInf = NInf"

text \<open>Comparisons: every comparison with NaN is false.\<close>

fun flt :: "pnum \<Rightarrow> pnum \<Rightarrow> bool" where
  "flt (Fin a) (Fin b) = (a < b)"
| "flt NaN _ = False"
| "flt _ NaN = False"
| "flt _ NInf = False"
| "flt PInf _ = False"
| "flt NInf _ = True"
| "flt _ PInf = True"

fun fle :: "pnum \<Rightarrow> pnum \<Rightarrow> bool" where
  "fle (Fin a) (Fin b) = (a \<le> b)"
| "fle NaN _ = False"
| "fle _ NaN = False"
| "fle NInf _ = True"
| "fle _ PInf = True"
| "fle _ NInf = False"
| "fle PInf _ = False"

definition fgt :: "pnum \<Rightarrow> pnum \<Rightarrow> bool" where
  "fgt a b = flt b a"

definition fge :: "pnum \<Rightarrow> pnum \<Rightarrow> bool" where
  "fge a b = fle b a"

text \<open>
  Python's \<^verbatim>\<open>max\<close> keeps the item it holds unless the next one is greater (\<^verbatim>\<open>>\<close>), and
  \<^verbatim>\<open>min\<close> unless the next one is less (\<^verbatim>\<open><\<close>); so a NaN that is not the first item is skipped.
  \<open>py_max a b\<close> is \<^verbatim>\<open>max(a, b)\<close>, and \<open>py_max_list x xs\<close> is \<^verbatim>\<open>max([x] + xs)\<close>, the
  only shape in which the source takes the maximum of a list.
\<close>

definition py_max :: "pnum \<Rightarrow> pnum \<Rightarrow> pnum" where
  "py_max a b = (if fgt b a then b else a)"

definition py_min :: "pnum \<Rightarrow> pnum \<Rightarrow> pnum" where
  "py_min a b = (if flt b a then b else a)"

fun py_max_list :: "pnum \<Rightarrow> pnum list \<Rightarrow> pnum" where
  "py_max_list x xs = foldl py_max x xs"

fun py_min_list :: "pnum \<Rightarrow> pnum list \<Rightarrow> pnum" where
  "py_min_list x xs = foldl py_min x xs"

datatype error = ZeroDivisionError | OverflowError | AttributeError | ComplexThreshold

text \<open>
  \<^verbatim>\<open>x ** y\<close> on finite floats. The value of the power is kept exact: the power function of
  the C library is not fixed bit for bit, and is exact where the result is a double, as
  for the exponent \<open>1\<close>. A result beyond the largest double raises \<^verbatim>\<open>OverflowError\<close>.
  A negative base with a fractional exponent gives a complex number in Python 3; the
  model has no value for it and stops with \<open>ComplexThreshold\<close>: in \<^verbatim>\<open>respond\<close> the
  comparison of a float with that complex number raises, and in \<^verbatim>\<open>propose\<close> the program
  returns an offer whose price is that complex number.
  HOL's \<open>0 powr y\<close> is \<open>0\<close> for every \<open>y\<close>, so the cases of a zero base and of a zero
  exponent are written out.
\<close>

definition pow_result :: "real \<Rightarrow> error + real" where
  "pow_result z = (if dmax < \<bar>rnd z\<bar> then Inl OverflowError else Inr z)"

definition float_pow :: "real \<Rightarrow> real \<Rightarrow> error + real" where
  "float_pow x y =
     (if y = 0 then Inr 1
      else if x = 0 then (if y < 0 then Inl ZeroDivisionError else Inr 0)
      else if 0 < x then pow_result (x powr y)
      else if y \<in> \<int> then pow_result (x powi \<lfloor>y\<rfloor>)
      else Inl ComplexThreshold)"

section \<open>Data model\<close>

text \<open>
  The agent-world interface \<^verbatim>\<open>self.awi\<close> and the negotiation interface that
  \<^verbatim>\<open>self.get_ami(negotiator_id)\<close> returns belong to the simulation library; the fields the
  agent reads are taken as given. Quantities are Python integers; the bounds of the price
  issue and the prices of offers and agreements are finite numbers (the integers of the
  simulation are doubles exactly). An offer is the tuple
  indexed by \<^verbatim>\<open>QUANTITY\<close>, \<^verbatim>\<open>TIME\<close> and \<^verbatim>\<open>UNIT_PRICE\<close>; the price an agent proposes is
  computed from its memories and may leave the finite numbers, hence the type parameter.
\<close>

record awi =
  current_exogenous_input_quantity :: int
  current_exogenous_output_quantity :: int
  current_step :: int
  my_output_product :: int

record ami =
  product :: int
  buyer :: string
  seller :: string
  quantity_min_value :: int
  quantity_max_value :: int
  price_min_value :: real
  price_max_value :: real
  n_steps :: int

record 'p offer =
  QUANTITY :: int
  TIME :: int
  UNIT_PRICE :: 'p

record contract =
  agreement_quantity :: int
  agreement_unit_price :: real
  annotation_buyer :: string
  annotation_seller :: string

datatype ResponseType = ACCEPT_OFFER | REJECT_OFFER | END_NEGOTIATION

text \<open>The keyword parameters of \<^verbatim>\<open>BetterAgent.__init__\<close> and \<^verbatim>\<open>LearningAgent.__init__\<close>.\<close>

record params =
  concession_exponent :: real
  acc_price_slack :: pnum
  step_price_slack :: pnum
  opp_price_slack :: pnum
  opp_acc_price_slack :: pnum
  range_slack :: pnum

text \<open>
  The defaults at their decimal values. Where the bits of \<^verbatim>\<open>0.2\<close> and \<^verbatim>\<open>0.03\<close> matter,
  \<open>linear_params\<close> below holds the doubles that Python reads them as.
\<close>

definition default_params :: params where
  "default_params =
     \<lparr>concession_exponent = 2 / 10, acc_price_slack = PInf, step_price_slack = Fin 0,
      opp_price_slack = Fin 0, opp_acc_price_slack = Fin (2 / 10), range_slack = Fin (3 / 100)\<rparr>"

text \<open>
  The attributes of a \<^verbatim>\<open>LearningAgent\<close>. The four per-partner memories are
  \<^verbatim>\<open>defaultdict\<close>s: a map of the keys present, read through \<open>dd_get\<close>, which stores the
  seed under a key it does not find, as \<^verbatim>\<open>d[k]\<close> does. \<open>dd_obs\<close> is what a reader of the
  mapping sees under a key, with no insertion.
\<close>

record agent =
  secured :: int
  best_selling :: pnum
  best_buying :: pnum
  best_acc_selling :: pnum
  best_acc_buying :: pnum
  best_opp_selling :: "string \<rightharpoonup> pnum"
  best_opp_buying :: "string \<rightharpoonup> pnum"
  best_opp_acc_selling :: "string \<rightharpoonup> pnum"
  best_opp_acc_buying :: "string \<rightharpoonup> pnum"

definition dd_get :: "pnum \<Rightarrow> (string \<rightharpoonup> pnum) \<Rightarrow> string \<Rightarrow> pnum \<times> (string \<rightharpoonup> pnum)" where
  "dd_get seed d k = (case d k of None \<Rightarrow> (seed, d(k \<mapsto> seed)) | Some v \<Rightarrow> (v, d))"

definition dd_obs :: "pnum \<Rightarrow> (string \<rightharpoonup> pnum) \<Rightarrow> string \<Rightarrow> pnum" where
  "dd_obs seed d k = (case d k of None \<Rightarrow> seed | Some v \<Rightarrow> v)"

section \<open>SimpleAgent\<close>

definition LearningAgent_init :: agent where
  "LearningAgent_init =
     \<lparr>secured = 0, best_selling = Fin 0, best_buying = PInf,
      best_acc_selling = Fin 0, best_acc_buying = PInf,
      best_opp_selling = Map.empty, best_opp_buying = Map.empty,
      best_opp_acc_selling = Map.empty, best_opp_acc_buying = Map.empty\<rparr>"

text \<open>
  \<^verbatim>\<open>LearningAgent.step\<close> runs the chain of \<^verbatim>\<open>super().step()\<close> calls first
  (\<^verbatim>\<open>SimpleAgent.step\<close>, then \<^verbatim>\<open>AdaptiveAgent.step\<close>) and then replaces the two within-period
  per-partner memories by fresh ones.
\<close>

definition SimpleAgent_step :: "agent \<Rightarrow> agent" where
  "SimpleAgent_step s = s\<lparr>secured := 0\<rparr>"

definition AdaptiveAgent_step :: "agent \<Rightarrow> agent" where
  "AdaptiveAgent_step s = (SimpleAgent_step s)\<lparr>best_selling := Fin 0, best_buying := PInf\<rparr>"

definition LearningAgent_step :: "agent \<Rightarrow> agent" where
  "LearningAgent_step s =
     (AdaptiveAgent_step s)\<lparr>best_opp_selling := Map.empty, best_opp_buying := Map.empty\<rparr>"

text \<open>\<^verbatim>\<open>_needed\<close> ignores its \<^verbatim>\<open>negotiator_id\<close> argument.\<close>

definition needed :: "awi \<Rightarrow> agent \<Rightarrow> string option \<Rightarrow> int" where
  "needed w s negotiator_id =
     current_exogenous_input_quantity w + current_exogenous_output_quantity w - secured s"

definition is_selling :: "awi \<Rightarrow> ami \<Rightarrow> bool" where
  "is_selling w a = (product a = my_output_product w)"

definition SimpleAgent_respond :: "awi \<Rightarrow> agent \<Rightarrow> string \<Rightarrow> real offer \<Rightarrow> ResponseType" where
  "SimpleAgent_respond w s negotiator_id offer =
     (let my_needs = needed w s (Some negotiator_id) in
      if my_needs \<le> 0 then END_NEGOTIATION
      else if QUANTITY offer \<le> my_needs then ACCEPT_OFFER else REJECT_OFFER)"

text \<open>
  \<^verbatim>\<open>best_offer\<close>: the second argument of the model is the result of
  \<^verbatim>\<open>self.get_ami(negotiator_id)\<close>, which the code tests for \<^verbatim>\<open>None\<close>.
\<close>

definition best_offer :: "awi \<Rightarrow> agent \<Rightarrow> string \<Rightarrow> ami option \<Rightarrow> real offer option" where
  "best_offer w s negotiator_id get_ami =
     (let my_needs = needed w s (Some negotiator_id) in
      if my_needs \<le> 0 then None
      else case get_ami of
        None \<Rightarrow> None
      | Some a \<Rightarrow>
          Some \<lparr>QUANTITY = max (min my_needs (quantity_max_value a)) (quantity_min_value a),
                TIME = current_step w,
                UNIT_PRICE = (if is_selling w a then price_max_value a else price_min_value a)\<rparr>)"

definition SimpleAgent_on_negotiation_success :: "agent \<Rightarrow> contract \<Rightarrow> agent" where
  "SimpleAgent_on_negotiation_success s c = s\<lparr>secured := secured s + agreement_quantity c\<rparr>"

section \<open>BetterAgent: the concession threshold\<close>

text \<open>
  \<^verbatim>\<open>_th(step, n_steps)\<close> is \<^verbatim>\<open>((n_steps - step - 1) / (n_steps - 1)) ** self._e\<close>: a true
  division of two integers, which raises when the divisor is zero, then a power. The
  quotient is kept exact as the power is; both are doubles exactly at the first and the
  last round, and wherever the quotient is a dyadic fraction and the exponent is \<open>1\<close>.
\<close>

definition th :: "params \<Rightarrow> int \<Rightarrow> int \<Rightarrow> error + real" where
  "th cfg step nsteps =
     (if nsteps - 1 = 0 then Inl ZeroDivisionError
      else float_pow (real_of_int (nsteps - step - 1) / real_of_int (nsteps - 1))
             (concession_exponent cfg))"

section \<open>LearningAgent: the price range\<close>

text \<open>
  \<^verbatim>\<open>self._price_range\<close> is looked up on the instance, so in a \<^verbatim>\<open>LearningAgent\<close> every
  caller (\<^verbatim>\<open>_is_good_price\<close> and \<^verbatim>\<open>_find_good_price\<close> of \<^verbatim>\<open>BetterAgent\<close>) runs
  \<^verbatim>\<open>LearningAgent._price_range\<close>, which does not call the versions it overrides. Reading
  the two per-partner memories inserts the partner's key where it is missing, so the
  function returns the agent as well.
\<close>

definition scaled_down :: "pnum \<times> pnum \<Rightarrow> pnum" where
  "scaled_down = (\<lambda>(p, slack). fmul p (fsub (Fin 1) slack))"

definition scaled_up :: "pnum \<times> pnum \<Rightarrow> pnum" where
  "scaled_up = (\<lambda>(p, slack). fmul p (fadd (Fin 1) slack))"

definition price_range :: "params \<Rightarrow> awi \<Rightarrow> agent \<Rightarrow> ami \<Rightarrow> (pnum \<times> pnum) \<times> agent" where
  "price_range cfg w s a =
     (let mn = Fin (price_min_value a); mx = Fin (price_max_value a) in
      if is_selling w a then
        let partner = buyer a;
            bound = fmul mx (fsub (Fin 1) (range_slack cfg));
            (opp, d1) = dd_get (Fin 0) (best_opp_selling s) partner;
            (opp_acc, d2) = dd_get (Fin 0) (best_opp_acc_selling s) partner;
            mn' = py_min bound
                    (py_max_list mn
                       (map scaled_down
                          [(best_selling s, step_price_slack cfg),
                           (best_acc_selling s, acc_price_slack cfg),
                           (opp, opp_price_slack cfg),
                           (opp_acc, opp_acc_price_slack cfg)]))
        in ((mn', mx), s\<lparr>best_opp_selling := d1, best_opp_acc_selling := d2\<rparr>)
      else
        let partner = seller a;
            bound = fmul mn (fadd (Fin 1) (range_slack cfg));
            (opp, d1) = dd_get PInf (best_opp_buying s) partner;
            (opp_acc, d2) = dd_get PInf (best_opp_acc_buying s) partner;
            mx' = py_max bound
                    (py_min_list mx
                       (map scaled_up
                          [(best_buying s, step_price_slack cfg),
                           (best_acc_buying s, acc_price_slack cfg),
                           (opp, opp_price_slack cfg),
                           (opp_acc, opp_acc_price_slack cfg)]))
        in ((mn, mx'), s\<lparr>best_opp_buying := d1, best_opp_acc_buying := d2\<rparr>))"

text \<open>
  \<^verbatim>\<open>_is_good_price\<close> and \<^verbatim>\<open>_find_good_price\<close> compute the range first and the threshold
  second, so a failing threshold leaves the keys that the range inserted.
\<close>

definition is_good_price ::
  "params \<Rightarrow> awi \<Rightarrow> agent \<Rightarrow> ami \<Rightarrow> int \<Rightarrow> real \<Rightarrow> (error + bool) \<times> agent" where
  "is_good_price cfg w s a step price =
     (let ((mn, mx), s') = price_range cfg w s a in
      case th cfg step (n_steps a) of
        Inl err \<Rightarrow> (Inl err, s')
      | Inr t \<Rightarrow>
          (Inr (if is_selling w a
                then fge (fsub (Fin price) mn) (fmul (Fin t) (fsub mx mn))
                else fge (fsub mx (Fin price)) (fmul (Fin t) (fsub mx mn))), s'))"

definition find_good_price ::
  "params \<Rightarrow> awi \<Rightarrow> agent \<Rightarrow> ami \<Rightarrow> int \<Rightarrow> (error + pnum) \<times> agent" where
  "find_good_price cfg w s a step =
     (let ((mn, mx), s') = price_range cfg w s a in
      case th cfg step (n_steps a) of
        Inl err \<Rightarrow> (Inl err, s')
      | Inr t \<Rightarrow>
          (Inr (if is_selling w a
                then fadd mn (fmul (Fin t) (fsub mx mn))
                else fsub mx (fmul (Fin t) (fsub mx mn))), s'))"

section \<open>propose\<close>

text \<open>
  \<^verbatim>\<open>LearningAgent\<close> and \<^verbatim>\<open>AdaptiveAgent\<close> inherit \<^verbatim>\<open>BetterAgent.propose\<close>:
  \<^verbatim>\<open>SimpleAgent.propose\<close> (that is \<^verbatim>\<open>best_offer\<close>), then the price replaced. The state
  argument of the source is read for its \<^verbatim>\<open>step\<close> only. The second \<^verbatim>\<open>get_ami\<close> call cannot
  give \<^verbatim>\<open>None\<close> once \<^verbatim>\<open>best_offer\<close> has returned an offer; the model writes the
  \<^verbatim>\<open>AttributeError\<close> that the access to \<^verbatim>\<open>ami.issues\<close> would raise there.
\<close>

definition propose ::
  "params \<Rightarrow> awi \<Rightarrow> agent \<Rightarrow> string \<Rightarrow> ami option \<Rightarrow> int \<Rightarrow> (error + pnum offer option) \<times> agent" where
  "propose cfg w s negotiator_id get_ami step =
     (case best_offer w s negotiator_id get_ami of
        None \<Rightarrow> (Inr None, s)
      | Some offer \<Rightarrow>
          (case get_ami of
             None \<Rightarrow> (Inl AttributeError, s)
           | Some a \<Rightarrow>
               (case find_good_price cfg w s a step of
                  (Inl err, s') \<Rightarrow> (Inl err, s')
                | (Inr p, s') \<Rightarrow>
                    (Inr (Some \<lparr>QUANTITY = QUANTITY offer, TIME = TIME offer, UNIT_PRICE = p\<rparr>),
                     s'))))"

section \<open>respond\<close>

text \<open>
  The chain of \<^verbatim>\<open>super().respond\<close> calls, innermost first. An exception raised in an inner
  call leaves the outer ones before their memory updates.
\<close>

definition BetterAgent_respond ::
  "params \<Rightarrow> awi \<Rightarrow> agent \<Rightarrow> string \<Rightarrow> ami option \<Rightarrow> int \<Rightarrow> real offer
     \<Rightarrow> (error + ResponseType) \<times> agent" where
  "BetterAgent_respond cfg w s negotiator_id get_ami step offer =
     (let response = SimpleAgent_respond w s negotiator_id offer in
      if response \<noteq> ACCEPT_OFFER then (Inr response, s)
      else case get_ami of
        None \<Rightarrow> (Inl AttributeError, s)
      | Some a \<Rightarrow>
          (case is_good_price cfg w s a step (UNIT_PRICE offer) of
             (Inl err, s') \<Rightarrow> (Inl err, s')
           | (Inr good, s') \<Rightarrow> (Inr (if good then response else REJECT_OFFER), s')))"

definition AdaptiveAgent_respond ::
  "params \<Rightarrow> awi \<Rightarrow> agent \<Rightarrow> string \<Rightarrow> ami option \<Rightarrow> int \<Rightarrow> real offer
     \<Rightarrow> (error + ResponseType) \<times> agent" where
  "AdaptiveAgent_respond cfg w s negotiator_id get_ami step offer =
     (case BetterAgent_respond cfg w s negotiator_id get_ami step offer of
        (Inl err, s') \<Rightarrow> (Inl err, s')
      | (Inr response, s') \<Rightarrow>
          (case get_ami of
             None \<Rightarrow> (Inl AttributeError, s')
           | Some a \<Rightarrow>
               (Inr response,
                if is_selling w a
                then s'\<lparr>best_selling := py_max (Fin (UNIT_PRICE offer)) (best_selling s')\<rparr>
                else s'\<lparr>best_buying := py_min (Fin (UNIT_PRICE offer)) (best_buying s')\<rparr>)))"

definition LearningAgent_respond ::
  "params \<Rightarrow> awi \<Rightarrow> agent \<Rightarrow> string \<Rightarrow> ami option \<Rightarrow> int \<Rightarrow> real offer
     \<Rightarrow> (error + ResponseType) \<times> agent" where
  "LearningAgent_respond cfg w s negotiator_id get_ami step offer =
     (case AdaptiveAgent_respond cfg w s negotiator_id get_ami step offer of
        (Inl err, s') \<Rightarrow> (Inl err, s')
      | (Inr response, s') \<Rightarrow>
          (case get_ami of
             None \<Rightarrow> (Inl AttributeError, s')
           | Some a \<Rightarrow>
               (let up = Fin (UNIT_PRICE offer) in
                (Inr response,
                 if is_selling w a
                 then s'\<lparr>best_opp_selling :=
                          (best_opp_selling s')(buyer a \<mapsto> py_max up (best_selling s'))\<rparr>
                 else s'\<lparr>best_opp_buying :=
                          (best_opp_buying s')(seller a \<mapsto> py_min up (best_buying s'))\<rparr>))))"

section \<open>on_negotiation_success\<close>

text \<open>
  \<^verbatim>\<open>LearningAgent.on_negotiation_success\<close>: the inherited \<^verbatim>\<open>SimpleAgent\<close> one, then the
  cross-period memories. The right-hand side \<^verbatim>\<open>max(up, d[partner])\<close> reads the mapping
  before the assignment stores into it.
\<close>

definition LearningAgent_on_negotiation_success :: "awi \<Rightarrow> agent \<Rightarrow> contract \<Rightarrow> ami \<Rightarrow> agent" where
  "LearningAgent_on_negotiation_success w s c mechanism =
     (let s1 = SimpleAgent_on_negotiation_success s c;
          up = Fin (agreement_unit_price c) in
      if is_selling w mechanism then
        let partner = annotation_buyer c;
            s2 = s1\<lparr>best_acc_selling := py_max up (best_acc_selling s1)\<rparr>;
            (old, d) = dd_get (Fin 0) (best_opp_acc_selling s2) partner
        in s2\<lparr>best_opp_acc_selling := d(partner \<mapsto> py_max up old)\<rparr>
      else
        let partner = annotation_seller c;
            s2 = s1\<lparr>best_acc_buying := py_min up (best_acc_buying s1)\<rparr>;
            (old, d) = dd_get PInf (best_opp_acc_buying s2) partner
        in s2\<lparr>best_opp_acc_buying := d(partner \<mapsto> py_min up old)\<rparr>)"

text \<open>
  What an observer of the agent's memory sees: the scalar attributes, and each per-partner
  mapping as the total function that reading it yields.
\<close>

definition view ::
  "agent \<Rightarrow> (int \<times> pnum \<times> pnum \<times> pnum \<times> pnum)
     \<times> (string \<Rightarrow> pnum) \<times> (string \<Rightarrow> pnum) \<times> (string \<Rightarrow> pnum) \<times> (string \<Rightarrow> pnum)" where
  "view s =
     ((secured s, best_selling s, best_buying s, best_acc_selling s, best_acc_buying s),
      dd_obs (Fin 0) (best_opp_selling s), dd_obs PInf (best_opp_buying s),
      dd_obs (Fin 0) (best_opp_acc_selling s), dd_obs PInf (best_opp_acc_buying s))"

section \<open>The agent's lifetime\<close>

text \<open>
  The callbacks the simulation makes on a \<^verbatim>\<open>LearningAgent\<close> after \<^verbatim>\<open>init\<close>, each with the
  arguments and the world it is made in. A callback that raises leaves the agent as it was
  when the exception left it.
\<close>

datatype event =
    Step
  | Success awi contract ami
  | Respond awi string "ami option" int "real offer"
  | Propose awi string "ami option" int

fun apply_event :: "params \<Rightarrow> agent \<Rightarrow> event \<Rightarrow> agent" where
  "apply_event cfg s Step = LearningAgent_step s"
| "apply_event cfg s (Success w c mechanism) = LearningAgent_on_negotiation_success w s c mechanism"
| "apply_event cfg s (Respond w negotiator_id get_ami step offer) =
     snd (LearningAgent_respond cfg w s negotiator_id get_ami step offer)"
| "apply_event cfg s (Propose w negotiator_id get_ami step) =
     snd (propose cfg w s negotiator_id get_ami step)"

definition run :: "params \<Rightarrow> event list \<Rightarrow> agent" where
  "run cfg es = foldl (apply_event cfg) LearningAgent_init es"

section \<open>E3BIUagent: declining requests of partners that breached\<close>

text \<open>
  \<^verbatim>\<open>team_49/agent.py\<close>. The world's financial reports of an agent,
  \<^verbatim>\<open>self.awi.reports_of_agent(agent_id)\<close>, are a dictionary from step to report, or \<^verbatim>\<open>None\<close>;
  the dictionary is kept as the list of its items in their order, which is the order of
  \<^verbatim>\<open>values()\<close>. Of a report only \<^verbatim>\<open>breach_level\<close> is read. \<^verbatim>\<open>a2i\<close> and \<^verbatim>\<open>agent_types\<close> are
  the world's tables behind \<^verbatim>\<open>get_agent_type\<close>.
\<close>

datatype lookup_error = KeyError | IndexError

record report =
  breach_level :: real

record world =
  reports_of_agent :: "string \<Rightarrow> (int \<times> report) list option"
  my_consumers :: "string list"
  my_suppliers :: "string list"
  a2i :: "string \<rightharpoonup> nat"
  agent_types :: "string list"
  type_name :: string

record annotation =
  is_buy :: bool
  ann_buyer :: string
  ann_seller :: string

text \<open>
  \<^verbatim>\<open>xs[-n:]\<close>: the last \<open>n\<close> items, all of them when there are fewer; \<^verbatim>\<open>xs[-0:]\<close> is
  \<^verbatim>\<open>xs[0:]\<close>, the whole list, and a negative \<open>n\<close> makes the start \<open>- n\<close> a position from the
  front.
\<close>

definition slice_from_minus :: "'a list \<Rightarrow> int \<Rightarrow> 'a list" where
  "slice_from_minus xs n =
     (if 0 < n then drop (length xs - nat n) xs
      else if n = 0 then xs
      else drop (nat (- n)) xs)"

definition is_breached_last_n_steps :: "world \<Rightarrow> string \<Rightarrow> int \<Rightarrow> bool" where
  "is_breached_last_n_steps w agent_id nsteps =
     (case reports_of_agent w agent_id of
        None \<Rightarrow> False
      | Some reports \<Rightarrow>
          (let breach_levels = map (\<lambda>(k, step). breach_level step) reports in
           if 0 < sum_list (slice_from_minus breach_levels nsteps) then True else False))"

definition get_agent_type :: "world \<Rightarrow> string \<Rightarrow> lookup_error + string" where
  "get_agent_type w agent_name =
     (if agent_name \<in> set [''BUYER'', ''SELLER''] then Inr agent_name
      else case a2i w agent_name of
        None \<Rightarrow> Inl KeyError
      | Some i \<Rightarrow> if i < length (agent_types w) then Inr (agent_types w ! i) else Inl IndexError)"

text \<open>The loops of \<^verbatim>\<open>is_agent_unique\<close>: the first name of the agent's own type ends them.\<close>

fun some_of_own_type :: "world \<Rightarrow> string list \<Rightarrow> lookup_error + bool" where
  "some_of_own_type w [] = Inr False"
| "some_of_own_type w (name # names) =
     (case get_agent_type w name of
        Inl err \<Rightarrow> Inl err
      | Inr t \<Rightarrow> if t = type_name w then Inr True else some_of_own_type w names)"

definition is_agent_unique :: "world \<Rightarrow> bool \<Rightarrow> lookup_error + bool" where
  "is_agent_unique w isbuy =
     (if isbuy then some_of_own_type w (my_consumers w) else some_of_own_type w (my_suppliers w))"

text \<open>
  \<^verbatim>\<open>respond_to_negotiation_request\<close>. The last argument is what the inherited
  \<^verbatim>\<open>NegotiationManager.respond_to_negotiation_request\<close> returns, a negotiator or \<^verbatim>\<open>None\<close>;
  that class is not part of the sources at hand. \<^verbatim>\<open>and\<close> evaluates its second operand only
  when the first is true.
\<close>

definition respond_to_negotiation_request ::
  "world \<Rightarrow> annotation \<Rightarrow> 'n option \<Rightarrow> lookup_error + 'n option" where
  "respond_to_negotiation_request w ann super_response =
     (let breached_agent_name = (if is_buy ann then ann_buyer ann else ann_seller ann) in
      if is_breached_last_n_steps w breached_agent_name 25 then Inr None
      else case is_agent_unique w (is_buy ann) of
        Inl err \<Rightarrow> Inl err
      | Inr unique \<Rightarrow>
          if unique then
            (case get_agent_type w breached_agent_name of
               Inl err \<Rightarrow> Inl err
             | Inr t \<Rightarrow> if t \<noteq> type_name w then Inr None else Inr super_response)
          else Inr super_response)"

section \<open>Observing the cross-period memory\<close>

text \<open>
  The four cross-period memories as one partner sees them, and the order in which a later
  memory is at least as tight as an earlier one: the selling entries no lower, the buying
  entries no higher.
\<close>

definition acc_memory :: "agent \<Rightarrow> string \<Rightarrow> pnum \<times> pnum \<times> pnum \<times> pnum" where
  "acc_memory s partner =
     (best_acc_selling s, dd_obs (Fin 0) (best_opp_acc_selling s) partner,
      best_acc_buying s, dd_obs PInf (best_opp_acc_buying s) partner)"

fun tighter :: "pnum \<times> pnum \<times> pnum \<times> pnum \<Rightarrow> pnum \<times> pnum \<times> pnum \<times> pnum \<Rightarrow> bool" where
  "tighter (sa, so, ba, bo) (sa', so', ba', bo') =
     (fle sa sa' \<and> fle so so' \<and> fle ba' ba \<and> fle bo' bo)"

section \<open>Example inputs\<close>

text \<open>
  A first-level agent that must sell the ten units it receives (its output product is 1),
  a last-level agent that must buy ten units, an agent with nothing to trade, and
  negotiations on quantities 1 to 10 with a partner over a number of rounds: a sale with
  prices from 10 to 20, after the scenario of the specification, a purchase with prices
  from 0 to 10, and a purchase with prices from 10 to 20.
\<close>

definition seller_world :: awi where
  "seller_world =
     \<lparr>current_exogenous_input_quantity = 10, current_exogenous_output_quantity = 0,
      current_step = 0, my_output_product = 1\<rparr>"

definition buyer_world :: awi where
  "buyer_world =
     \<lparr>current_exogenous_input_quantity = 0, current_exogenous_output_quantity = 10,
      current_step = 0, my_output_product = 1\<rparr>"

definition idle_world :: awi where
  "idle_world =
     \<lparr>current_exogenous_input_quantity = 0, current_exogenous_output_quantity = 0,
      current_step = 0, my_output_product = 1\<rparr>"

definition selling_ami :: "string \<Rightarrow> int \<Rightarrow> ami" where
  "selling_ami partner rounds =
     \<lparr>product = 1, buyer = partner, seller = ''me'', quantity_min_value = 1,
      quantity_max_value = 10, price_min_value = 10, price_max_value = 20, n_steps = rounds\<rparr>"

definition buying_ami :: "string \<Rightarrow> int \<Rightarrow> ami" where
  "buying_ami partner rounds =
     \<lparr>product = 0, buyer = ''me'', seller = partner, quantity_min_value = 1,
      quantity_max_value = 10, price_min_value = 0, price_max_value = 10, n_steps = rounds\<rparr>"

definition purchase_ami :: "string \<Rightarrow> int \<Rightarrow> ami" where
  "purchase_ami partner rounds =
     \<lparr>product = 0, buyer = ''me'', seller = partner, quantity_min_value = 1,
      quantity_max_value = 10, price_min_value = 10, price_max_value = 20, n_steps = rounds\<rparr>"

definition offer_of :: "int \<Rightarrow> real \<Rightarrow> real offer" where
  "offer_of q p = \<lparr>QUANTITY = q, TIME = 0, UNIT_PRICE = p\<rparr>"

definition sale_to :: "string \<Rightarrow> int \<Rightarrow> real \<Rightarrow> contract" where
  "sale_to partner q p =
     \<lparr>agreement_quantity = q, agreement_unit_price = p, annotation_buyer = partner,
      annotation_seller = ''me''\<rparr>"

text \<open>
  The default parameters as the doubles that Python reads \<^verbatim>\<open>0.2\<close> and \<^verbatim>\<open>0.03\<close> as, with
  the concession exponent \<open>1\<close> (a linear concession), for which the threshold of a round
  is the quotient itself.
\<close>

definition linear_params :: params where
  "linear_params =
     \<lparr>concession_exponent = 1, acc_price_slack = PInf, step_price_slack = Fin 0,
      opp_price_slack = Fin 0,
      opp_acc_price_slack = Fin (3602879701896397 / 18014398509481984),
      range_slack = Fin (1080863910568919 / 36028797018963968)\<rparr>"

text \<open>
  A world in which partner \<open>P1\<close> has two published reports, the later one with a breach
  level of one half, and partner \<open>P2\<close> has none; and the annotation of a request in which
  the partner is the buyer.
\<close>

definition breach_world :: world where
  "breach_world =
     \<lparr>reports_of_agent =
        (\<lambda>agent_id. if agent_id = ''P1''
                     then Some [(0, \<lparr>breach_level = 0\<rparr>), (1, \<lparr>breach_level = 1 / 2\<rparr>)]
                     else None),
      my_consumers = [''P1'', ''P2''], my_suppliers = [], a2i = Map.empty, agent_types = [],
      type_name = ''E3BIUagent''\<rparr>"

definition request_from :: "string \<Rightarrow> annotation" where
  "request_from partner = \<lparr>is_buy = True, ann_buyer = partner, ann_seller = ''me''\<rparr>"

section \<open>Auxiliary facts\<close>

lemma dd_obs_dd_get: "dd_obs seed (snd (dd_get seed d k)) = dd_obs seed d"
  by (rule ext) (simp add: dd_get_def dd_obs_def split: option.splits)

lemma fst_dd_get: "fst (dd_get seed d k) = dd_obs seed d k"
  by (simp add: dd_get_def dd_obs_def split: option.splits)

lemma view_price_range: "view (snd (price_range cfg w s a)) = view s"
  by (simp add: price_range_def Let_def view_def split_beta dd_obs_dd_get)

lemma view_find_good_price: "view (snd (find_good_price cfg w s a step)) = view s"
  using view_price_range [of cfg w s a]
  by (simp add: find_good_price_def Let_def split_beta split: sum.splits)

lemma find_good_price_view: "find_good_price cfg w s a step = (r, s') \<Longrightarrow> view s' = view s"
  using view_find_good_price [of cfg w s a step] by simp

lemma is_good_price_view: "is_good_price cfg w s a step p = (r, s') \<Longrightarrow> view s' = view s"
  using view_price_range [of cfg w s a]
  by (auto simp add: is_good_price_def Let_def split_beta split: sum.splits)

lemma propose_view: "view (snd (propose cfg w s negotiator_id get_ami step)) = view s"
  by (auto simp add: propose_def split: option.splits prod.splits sum.splits
      dest: find_good_price_view)

lemma th_single_round: "th cfg step 1 = Inl ZeroDivisionError"
  by (simp add: th_def)

text \<open>The order of Python numbers: \<open><\<close> is transitive, NaN or not.\<close>

lemma flt_trans: "flt a b \<Longrightarrow> flt b c \<Longrightarrow> flt a c"
  by (cases a; cases b; cases c) simp_all

lemma py_min_below: "flt a c \<Longrightarrow> flt (py_min a b) c"
  by (auto simp add: py_min_def intro: flt_trans)

lemma py_max_above: "flt c a \<Longrightarrow> flt c (py_max a b)"
  by (auto simp add: py_max_def fgt_def intro: flt_trans)

text \<open>The cross-period memory under each callback.\<close>

lemma fle_trans: "fle a b \<Longrightarrow> fle b c \<Longrightarrow> fle a c"
  by (cases a; cases b; cases c) simp_all

lemma fle_right_refl: "fle a b \<Longrightarrow> fle b b"
  by (cases a; cases b) simp_all

lemma fle_left_refl: "fle a b \<Longrightarrow> fle a a"
  by (cases a; cases b) simp_all

lemma fle_py_max: "fle x x \<Longrightarrow> fle x (py_max (Fin u) x)"
  by (cases x) (simp_all add: py_max_def fgt_def)

lemma fle_py_min: "fle x x \<Longrightarrow> fle (py_min (Fin u) x) x"
  by (cases x) (simp_all add: py_min_def)

lemma tighter_trans: "tighter a b \<Longrightarrow> tighter b c \<Longrightarrow> tighter a c"
  by (cases a; cases b; cases c) (auto intro: fle_trans)

lemma tighter_right_refl: "tighter a b \<Longrightarrow> tighter b b"
  by (cases a; cases b) (auto intro: fle_right_refl fle_left_refl)

lemma acc_memory_of_view: "view s' = view s \<Longrightarrow> acc_memory s' p = acc_memory s p"
  by (simp add: view_def acc_memory_def)

lemma acc_memory_step: "acc_memory (LearningAgent_step s) p = acc_memory s p"
  by (simp add: acc_memory_def LearningAgent_step_def AdaptiveAgent_step_def SimpleAgent_step_def)

lemma acc_memory_propose: "acc_memory (snd (propose cfg w s nid g step)) p = acc_memory s p"
  by (rule acc_memory_of_view) (rule propose_view)

lemma BetterAgent_respond_view:
  "BetterAgent_respond cfg w s nid g step offer = (r, s') \<Longrightarrow> view s' = view s"
  by (auto simp add: BetterAgent_respond_def Let_def split: if_splits option.splits prod.splits sum.splits
       dest: is_good_price_view)

lemma acc_memory_AdaptiveAgent_respond:
  "AdaptiveAgent_respond cfg w s nid g step offer = (r, s') \<Longrightarrow> acc_memory s' p = acc_memory s p"
  by (auto simp add: AdaptiveAgent_respond_def acc_memory_def split: if_splits option.splits prod.splits sum.splits
      dest!: BetterAgent_respond_view acc_memory_of_view[where p = p])

lemma acc_memory_respond:
  "acc_memory (snd (LearningAgent_respond cfg w s nid g step offer)) p = acc_memory s p"
  by (auto simp add: LearningAgent_respond_def acc_memory_def Let_def
      split: if_splits option.splits prod.splits sum.splits
      dest!: acc_memory_AdaptiveAgent_respond[where p = p])

lemma dd_obs_store:
  "dd_obs seed ((snd (dd_get seed d k))(k \<mapsto> v)) p = (if p = k then v else dd_obs seed d p)"
  by (simp add: dd_obs_def dd_get_def split: option.splits)

lemma acc_memory_success_eq:
  "acc_memory (LearningAgent_on_negotiation_success w s c m) p =
     (let up = Fin (agreement_unit_price c) in
      if is_selling w m
      then (py_max up (best_acc_selling s),
            if p = annotation_buyer c
            then py_max up (dd_obs (Fin 0) (best_opp_acc_selling s) p)
            else dd_obs (Fin 0) (best_opp_acc_selling s) p,
            best_acc_buying s, dd_obs PInf (best_opp_acc_buying s) p)
      else (best_acc_selling s, dd_obs (Fin 0) (best_opp_acc_selling s) p,
            py_min up (best_acc_buying s),
            if p = annotation_seller c
            then py_min up (dd_obs PInf (best_opp_acc_buying s) p)
            else dd_obs PInf (best_opp_acc_buying s) p))"
  by (simp add: LearningAgent_on_negotiation_success_def SimpleAgent_on_negotiation_success_def
      acc_memory_def Let_def split_beta dd_obs_store fst_dd_get)

lemma acc_memory_success:
  assumes "tighter (acc_memory s p) (acc_memory s p)"
  shows "tighter (acc_memory s p) (acc_memory (LearningAgent_on_negotiation_success w s c m) p)"
proof -
  from assms have r:
    "fle (best_acc_selling s) (best_acc_selling s)"
    "fle (dd_obs (Fin 0) (best_opp_acc_selling s) p) (dd_obs (Fin 0) (best_opp_acc_selling s) p)"
    "fle (best_acc_buying s) (best_acc_buying s)"
    "fle (dd_obs PInf (best_opp_acc_buying s) p) (dd_obs PInf (best_opp_acc_buying s) p)"
    by (simp_all add: acc_memory_def)
  show ?thesis
    unfolding acc_memory_success_eq
    using r by (auto simp add: acc_memory_def Let_def fle_py_max fle_py_min)
qed

lemma acc_memory_event:
  assumes "tighter (acc_memory s p) (acc_memory s p)"
  shows "tighter (acc_memory s p) (acc_memory (apply_event cfg s e) p)"
  using assms
  by (cases e) (simp_all add: acc_memory_step acc_memory_propose acc_memory_respond acc_memory_success)

lemma acc_memory_events:
  assumes "tighter (acc_memory s p) (acc_memory s p)"
  shows "tighter (acc_memory s p) (acc_memory (foldl (apply_event cfg) s es) p)"
  using assms
proof (induction es arbitrary: s)
  case Nil
  then show ?case by simp
next
  case (Cons e es)
  have 1: "tighter (acc_memory s p) (acc_memory (apply_event cfg s e) p)"
    using Cons.prems by (rule acc_memory_event)
  then have "tighter (acc_memory (apply_event cfg s e) p) (acc_memory (apply_event cfg s e) p)"
    by (rule tighter_right_refl)
  then have "tighter (acc_memory (apply_event cfg s e) p)
               (acc_memory (foldl (apply_event cfg) (apply_event cfg s e) es) p)"
    by (rule Cons.IH)
  with 1 show ?case
    by (simp add: tighter_trans)
qed

lemma acc_memory_init: "tighter (acc_memory LearningAgent_init p) (acc_memory LearningAgent_init p)"
  by (simp add: acc_memory_def LearningAgent_init_def dd_obs_def)

text \<open>The breach rule on a partner with reports.\<close>

lemma breached_iff:
  "reports_of_agent w agent_id = Some reports \<Longrightarrow>
     is_breached_last_n_steps w agent_id 25
       = (0 < sum_list (map (\<lambda>kv. breach_level (snd kv)) (drop (length reports - 25) reports)))"
  by (simp add: is_breached_last_n_steps_def slice_from_minus_def Let_def case_prod_unfold drop_map)

subsection \<open>Rounding\<close>

text \<open>
  Rounding to the nearest integer is off by a half at most, so rounding to a double is
  off by half the spacing at most; and it keeps the sign.
\<close>

lemma rne_half: "\<bar>of_int (rne y) - y\<bar> \<le> 1 / 2"
  unfolding rne_def Let_def by (simp; linarith)

lemma rne_near: "\<bar>y - of_int k\<bar> < 1 / 2 \<Longrightarrow> rne y = k"
proof -
  assume a: "\<bar>y - of_int k\<bar> < 1 / 2"
  show ?thesis
  proof (cases "of_int k \<le> y")
    case True
    then have "\<lfloor>y\<rfloor> = k" using a by (intro floor_unique) linarith+
    then show ?thesis using a True by (simp add: rne_def Let_def)
  next
    case False
    then have "\<lfloor>y\<rfloor> = k - 1" using a by (intro floor_unique; simp; linarith)
    then show ?thesis using a False by (simp add: rne_def Let_def; linarith)
  qed
qed

lemma rne_int: "rne (of_int k) = k"
  by (rule rne_near) simp

lemma floor_log2:
  assumes "2 powi e \<le> \<bar>x\<bar>" "\<bar>x\<bar> < 2 powi (e + 1)"
  shows "\<lfloor>log 2 \<bar>x\<bar>\<rfloor> = e"
proof -
  have pos: "0 < \<bar>x\<bar>"
    using assms(1) zero_less_power_int [of "2::real" e] by linarith
  have 1: "(2::real) powr real_of_int e = 2 powi e"
    by (rule powr_real_of_int') simp_all
  have 2: "(2::real) powr real_of_int (e + 1) = 2 powi (e + 1)"
    by (rule powr_real_of_int') simp_all
  show ?thesis
    using assms pos 1 2 floor_log_eq_powr_iff [of "\<bar>x\<bar>" 2 e] by simp
qed

lemma ulp_exp_normal:
  assumes "2 powi e \<le> \<bar>x\<bar>" "\<bar>x\<bar> < 2 powi (e + 1)" "- 1022 \<le> e"
  shows "ulp_exp x = e - 52"
  using floor_log2 [OF assms(1,2)] assms(3) by (simp add: ulp_exp_def)

text \<open>The spacing at \<open>x\<close> is at most \<open>\<bar>x\<bar> / 2 ^ 52\<close>, or the subnormal spacing.\<close>

lemma ulp_le:
  assumes "x \<noteq> 0"
  shows "2 powi ulp_exp x \<le> max (\<bar>x\<bar> * 2 powi (- 52)) (2 powi (- 1074))"
proof (cases "\<lfloor>log 2 \<bar>x\<bar>\<rfloor> \<le> - 1022")
  case True
  then have "ulp_exp x = - 1074" by (simp add: ulp_exp_def)
  then show ?thesis by simp
next
  case False
  define e where "e = \<lfloor>log 2 \<bar>x\<bar>\<rfloor>"
  have u: "ulp_exp x = e - 52" using False by (simp add: ulp_exp_def e_def)
  have "(2::real) powr real_of_int e = 2 powi e"
    by (rule powr_real_of_int') simp_all
  moreover have "(2::real) powr real_of_int e \<le> \<bar>x\<bar>"
    using assms by (subst powr_le_iff) (simp_all add: e_def)
  ultimately have "2 powi e \<le> \<bar>x\<bar>" by simp
  then have "2 powi e * 2 powi (- 52) \<le> \<bar>x\<bar> * 2 powi (- 52)"
    by (intro mult_right_mono) simp_all
  moreover have "(2::real) powi (e - 52) = 2 powi e * 2 powi (- 52)"
    using power_int_add [of "2::real" e "- 52"] by simp
  ultimately show ?thesis using u by simp
qed

lemma rnd_zero: "rnd 0 = 0"
  by (simp add: rnd_def)

lemma rnd_error: "\<bar>rnd x - x\<bar> \<le> 2 powi ulp_exp x / 2"
proof (cases "x = 0")
  case True
  then show ?thesis by (simp add: rnd_def)
next
  case False
  define q :: real where "q = 2 powi ulp_exp x"
  define k :: real where "k = of_int (rne (x / q))"
  have q: "0 < q" by (simp add: q_def)
  have "\<bar>k - x / q\<bar> \<le> 1 / 2" unfolding k_def by (rule rne_half)
  then have 1: "\<bar>k - x / q\<bar> * q \<le> 1 / 2 * q"
    using q by (intro mult_right_mono) simp_all
  have "k * q - x = (k - x / q) * q"
    using q by (simp add: left_diff_distrib)
  then have 2: "\<bar>k * q - x\<bar> = \<bar>k - x / q\<bar> * q"
    using q by (simp add: abs_mult)
  have "rnd x = k * q" using False by (simp add: rnd_def q_def k_def)
  with 1 2 show ?thesis by (simp add: q_def)
qed

lemma rnd_error_bound: "\<bar>rnd x - x\<bar> \<le> \<bar>x\<bar> * 2 powi (- 53) + 2 powi (- 1075)"
proof (cases "x = 0")
  case True
  then show ?thesis by (simp add: rnd_def)
next
  case False
  have "2 powi ulp_exp x \<le> max (\<bar>x\<bar> * 2 powi (- 52)) (2 powi (- 1074))"
    using False by (rule ulp_le)
  then have "2 powi ulp_exp x / 2 \<le> \<bar>x\<bar> * 2 powi (- 53) + 2 powi (- 1075)"
    by (simp add: max_def power_int_minus split: if_splits; linarith?)
  with rnd_error [of x] show ?thesis by linarith
qed


lemma rnd_normal:
  assumes "2 powi e \<le> \<bar>x\<bar>" "\<bar>x\<bar> < 2 powi (e + 1)" "- 1022 \<le> e"
  shows "rnd x = of_int (rne (x / 2 powi (e - 52))) * 2 powi (e - 52)"
proof -
  have "0 < \<bar>x\<bar>" using assms(1) zero_less_power_int [of "2::real" e] by linarith
  then have "x \<noteq> 0" by simp
  then show ?thesis using ulp_exp_normal [OF assms] by (simp add: rnd_def)
qed

lemma rne_nonpos: "y \<le> 0 \<Longrightarrow> rne y \<le> 0"
  using rne_half [of y] by linarith

lemma rne_nonneg: "0 \<le> y \<Longrightarrow> 0 \<le> rne y"
  using rne_half [of y] by linarith

lemma rnd_nonpos: "x \<le> 0 \<Longrightarrow> rnd x \<le> 0"
proof -
  assume a: "x \<le> 0"
  have "x / 2 powi ulp_exp x \<le> 0"
    using a by (simp add: divide_nonpos_pos)
  then have "rne (x / 2 powi ulp_exp x) \<le> 0" by (rule rne_nonpos)
  then have "of_int (rne (x / 2 powi ulp_exp x)) * (2::real) powi ulp_exp x \<le> 0"
    by (simp add: mult_nonpos_nonneg)
  then show ?thesis by (simp add: rnd_def)
qed

lemma rnd_nonneg: "0 \<le> x \<Longrightarrow> 0 \<le> rnd x"
proof -
  assume a: "0 \<le> x"
  have "0 \<le> x / 2 powi ulp_exp x"
    using a by simp
  then have "0 \<le> rne (x / 2 powi ulp_exp x)" by (rule rne_nonneg)
  then have "0 \<le> of_int (rne (x / 2 powi ulp_exp x)) * (2::real) powi ulp_exp x"
    by simp
  then show ?thesis by (simp add: rnd_def)
qed

lemma dmax_large: "2 ^ 1023 \<le> dmax"
  by (simp add: dmax_def)

lemma rnd_in_range:
  assumes "\<bar>x\<bar> \<le> 2 ^ 1000"
  shows "\<bar>rnd x\<bar> \<le> dmax"
proof -
  have "\<bar>rnd x - x\<bar> \<le> \<bar>x\<bar> * 2 powi (- 53) + 2 powi (- 1075)"
    by (rule rnd_error_bound)
  moreover have "\<bar>x\<bar> * 2 powi (- 53) \<le> \<bar>x\<bar>"
    by (simp add: power_int_minus mult_left_le)
  moreover have "(2::real) powi (- 1075) \<le> 1"
    by (simp add: power_int_minus field_simps)
  ultimately have "\<bar>rnd x\<bar> \<le> 2 * 2 ^ 1000 + 1"
    using assms by linarith
  moreover have "2 * 2 ^ 1000 + 1 \<le> (2::real) ^ 1023"
    by simp
  ultimately show ?thesis
    using dmax_large by linarith
qed

lemma fl_finite: "\<bar>x\<bar> \<le> 2 ^ 1000 \<Longrightarrow> fl x = Fin (rnd x)"
  using rnd_in_range [of x] by (simp add: fl_def Let_def; linarith)

text \<open>The rounding of a number of a given binade, in a form that evaluates.\<close>

lemma rnd_above_one:
  assumes "2 ^ n \<le> \<bar>x\<bar>" "\<bar>x\<bar> < 2 * 2 ^ n" "n \<le> 52"
  shows "rnd x = of_int (rne (x * 2 ^ (52 - n))) / 2 ^ (52 - n)"
proof -
  have "int n - 52 = - int (52 - n)"
    using assms(3) by simp
  then have "(2::real) powi (int n - 52) = 1 / 2 powi int (52 - n)"
    by (simp only: power_int_minus_divide)
  then have "(2::real) powi (int n - 52) = 1 / 2 ^ (52 - n)"
    by (simp only: power_int_of_nat)
  then show ?thesis
    using assms rnd_normal [of "int n" x] by (simp add: power_int_add)
qed

lemma rnd_below_one:
  assumes "1 \<le> \<bar>x\<bar> * 2 ^ n" "\<bar>x\<bar> * 2 ^ n < 2" "n \<le> 1022"
  shows "rnd x = of_int (rne (x * 2 ^ (52 + n))) / 2 ^ (52 + n)"
proof -
  have "- int n - 52 = - int (52 + n)"
    by simp
  then have "(2::real) powi (- int n - 52) = 1 / 2 powi int (52 + n)"
    by (simp only: power_int_minus_divide)
  then have 1: "(2::real) powi (- int n - 52) = 1 / 2 ^ (52 + n)"
    by (simp only: power_int_of_nat)
  have "(2::real) powi (- int n) = 1 / 2 powi int n"
    by (simp only: power_int_minus_divide)
  then have 2: "(2::real) powi (- int n) = 1 / 2 ^ n"
    by simp
  have "(2::real) powi (- int n + 1) = 2 powi (- int n) * 2"
    by (rule power_int_add_1) simp
  then have 3: "(2::real) powi (- int n + 1) = 2 / 2 ^ n"
    using 2 by simp
  have le: "2 powi (- int n) \<le> \<bar>x\<bar>"
    using assms(1) unfolding 2 by (simp add: field_simps)
  have lt: "\<bar>x\<bar> < 2 powi (- int n + 1)"
    using assms(2) unfolding 3 by (simp add: field_simps)
  have "rnd x = of_int (rne (x / 2 powi (- int n - 52))) * 2 powi (- int n - 52)"
    using rnd_normal [OF le lt] assms(3) by simp
  then show ?thesis
    unfolding 1 by simp
qed

text \<open>Rounding is monotone: it never passes a double.\<close>

lemma rne_floor: "rne y = \<lfloor>y\<rfloor> \<or> rne y = \<lfloor>y\<rfloor> + 1"
  by (simp add: rne_def Let_def)

lemma rne_mono: "a \<le> b \<Longrightarrow> rne a \<le> rne b"
proof -
  assume ab: "a \<le> b"
  then have fl: "\<lfloor>a\<rfloor> \<le> \<lfloor>b\<rfloor>" by (rule floor_mono)
  show ?thesis
  proof (cases "\<lfloor>a\<rfloor> = \<lfloor>b\<rfloor>")
    case True
    then have "a - of_int \<lfloor>a\<rfloor> \<le> b - of_int \<lfloor>b\<rfloor>" using ab by simp
    then show ?thesis using True by (auto simp add: rne_def Let_def)
  next
    case False
    then have "\<lfloor>a\<rfloor> + 1 \<le> \<lfloor>b\<rfloor>" using fl by simp
    moreover have "rne a \<le> \<lfloor>a\<rfloor> + 1" using rne_floor [of a] by auto
    moreover have "\<lfloor>b\<rfloor> \<le> rne b" using rne_floor [of b] by auto
    ultimately show ?thesis by linarith
  qed
qed

lemma rne_minus: "rne (- y) = - rne y"
proof (cases "y = of_int \<lfloor>y\<rfloor>")
  case True
  then obtain k where k: "y = of_int k" by blast
  have "rne (- of_int k) = - k"
    using rne_int [of "- k"] by simp
  then show ?thesis using k by (simp add: rne_int)
next
  case False
  then have lt: "of_int \<lfloor>y\<rfloor> < y" using of_int_floor_le [of y] by linarith
  have "\<lfloor>- y\<rfloor> = - \<lfloor>y\<rfloor> - 1"
    using lt floor_correct [of y] by (intro floor_unique; simp; linarith)
  then show ?thesis
    using lt floor_correct [of y] by (auto simp add: rne_def Let_def)
qed

lemma ulp_exp_minus: "ulp_exp (- x) = ulp_exp x"
  by (simp add: ulp_exp_def)

lemma rnd_minus: "rnd (- x) = - rnd x"
  by (simp add: rnd_def ulp_exp_minus rne_minus)

lemma ulp_exp_mono:
  assumes "0 < x" "x \<le> y"
  shows "ulp_exp x \<le> ulp_exp y"
proof -
  have "log 2 x \<le> log 2 y" using assms by simp
  then have "\<lfloor>log 2 \<bar>x\<bar>\<rfloor> \<le> \<lfloor>log 2 \<bar>y\<bar>\<rfloor>"
    using assms by (simp add: floor_mono)
  then show ?thesis by (simp add: ulp_exp_def)
qed

lemma below_next_binade:
  assumes "0 < x"
  shows "x < 2 powi (ulp_exp x + 53)"
proof -
  define e where "e = \<lfloor>log 2 \<bar>x\<bar>\<rfloor>"
  have "(2::real) powr real_of_int (e + 1) = 2 powi (e + 1)"
    by (rule powr_real_of_int') simp_all
  moreover have "log 2 x < real_of_int (e + 1)"
    using assms by (simp add: e_def)
  then have "x < 2 powr real_of_int (e + 1)"
    using assms by (subst (asm) log_less_iff) simp_all
  ultimately have "x < 2 powi (e + 1)" by simp
  moreover have "e + 1 \<le> ulp_exp x + 53" by (simp add: ulp_exp_def e_def)
  then have "(2::real) powi (e + 1) \<le> 2 powi (ulp_exp x + 53)"
    by (intro power_int_increasing) simp_all
  ultimately show ?thesis by linarith
qed

lemma above_own_binade:
  assumes "0 < y" "- 1074 < ulp_exp y"
  shows "2 powi (ulp_exp y + 52) \<le> y"
proof -
  define e where "e = \<lfloor>log 2 \<bar>y\<bar>\<rfloor>"
  have u: "ulp_exp y + 52 = e" using assms(2) by (simp add: ulp_exp_def e_def)
  have "(2::real) powr real_of_int e = 2 powi e"
    by (rule powr_real_of_int') simp_all
  moreover have "(2::real) powr real_of_int e \<le> y"
    using assms(1) by (subst powr_le_iff) (simp_all add: e_def)
  ultimately show ?thesis using u by simp
qed

lemma rnd_below_next_binade:
  assumes "0 < x"
  shows "rnd x \<le> 2 powi (ulp_exp x + 53)"
proof -
  define q where "q = ulp_exp x"
  have "x / 2 powi q < 2 powi (q + 53) / 2 powi q"
    using below_next_binade [OF assms] by (simp add: q_def divide_strict_right_mono)
  also have "\<dots> = of_int (2 ^ 53)"
    by (simp add: power_int_add)
  finally have "x / 2 powi q \<le> of_int (2 ^ 53)" by simp
  then have "rne (x / 2 powi q) \<le> rne (of_int (2 ^ 53))" by (rule rne_mono)
  then have "rne (x / 2 powi q) \<le> 2 ^ 53" by (simp only: rne_int)
  then have "real_of_int (rne (x / 2 powi q)) \<le> 2 ^ 53"
    by (metis of_int_le_iff of_int_numeral of_int_power)
  then have "real_of_int (rne (x / 2 powi q)) * 2 powi q \<le> 2 ^ 53 * 2 powi q"
    by (intro mult_right_mono) simp_all
  also have "\<dots> = 2 powi (q + 53)"
    by (simp add: power_int_add)
  finally show ?thesis using assms by (simp add: rnd_def q_def)
qed

lemma rnd_above_own_binade:
  assumes "0 < y" "- 1074 < ulp_exp y"
  shows "2 powi (ulp_exp y + 52) \<le> rnd y"
proof -
  define q where "q = ulp_exp y"
  have "2 powi (q + 52) / 2 powi q \<le> y / 2 powi q"
    using above_own_binade [OF assms] by (simp add: q_def divide_right_mono)
  moreover have "(2::real) powi (q + 52) / 2 powi q = of_int (2 ^ 52)"
    by (simp add: power_int_add)
  ultimately have "of_int (2 ^ 52) \<le> y / 2 powi q" by simp
  then have "rne (of_int (2 ^ 52)) \<le> rne (y / 2 powi q)" by (rule rne_mono)
  then have "2 ^ 52 \<le> rne (y / 2 powi q)" by (simp only: rne_int)
  then have "2 ^ 52 \<le> real_of_int (rne (y / 2 powi q))"
    by (metis of_int_le_iff of_int_numeral of_int_power)
  then have le: "2 ^ 52 * 2 powi q \<le> real_of_int (rne (y / 2 powi q)) * 2 powi q"
    by (intro mult_right_mono) simp_all
  have "(2::real) powi (q + 52) = 2 ^ 52 * 2 powi q"
    by (simp add: power_int_add)
  also note le
  finally show ?thesis using assms by (simp add: rnd_def q_def)
qed

lemma rnd_mono_pos:
  assumes "0 < x" "x \<le> y"
  shows "rnd x \<le> rnd y"
proof (cases "ulp_exp x = ulp_exp y")
  case True
  define q where "q = ulp_exp y"
  have "x / 2 powi q \<le> y / 2 powi q"
    using assms(2) by (simp add: divide_right_mono)
  then have "rne (x / 2 powi q) \<le> rne (y / 2 powi q)" by (rule rne_mono)
  then have "real_of_int (rne (x / 2 powi q)) * 2 powi q
               \<le> real_of_int (rne (y / 2 powi q)) * 2 powi q"
    by (intro mult_right_mono) simp_all
  then show ?thesis using assms True by (simp add: rnd_def q_def)
next
  case False
  then have lt: "ulp_exp x < ulp_exp y"
    using ulp_exp_mono [OF assms] by simp
  have "- 1074 \<le> ulp_exp x" by (simp add: ulp_exp_def)
  then have y: "- 1074 < ulp_exp y" using lt by simp
  have "rnd x \<le> 2 powi (ulp_exp x + 53)"
    using assms(1) by (rule rnd_below_next_binade)
  also have "\<dots> \<le> 2 powi (ulp_exp y + 52)"
    using lt by (intro power_int_increasing) simp_all
  also have "\<dots> \<le> rnd y"
    using assms y by (intro rnd_above_own_binade) simp_all
  finally show ?thesis .
qed

lemma rnd_mono:
  assumes "x \<le> y"
  shows "rnd x \<le> rnd y"
proof (cases "0 < x")
  case True
  then show ?thesis using assms by (rule rnd_mono_pos)
next
  case False
  show ?thesis
  proof (cases "0 \<le> y")
    case True
    have "rnd x \<le> 0" using False by (intro rnd_nonpos) simp
    moreover have "0 \<le> rnd y" using True by (rule rnd_nonneg)
    ultimately show ?thesis by simp
  next
    case False
    then have "rnd (- y) \<le> rnd (- x)"
      using assms by (intro rnd_mono_pos) simp_all
    then show ?thesis by (simp add: rnd_minus)
  qed
qed

subsection \<open>The threshold within the rounds\<close>

lemma pow_result_small: "\<bar>z\<bar> \<le> 2 ^ 1000 \<Longrightarrow> pow_result z = Inr z"
  using rnd_in_range [of z] by (simp add: pow_result_def)

lemma th_in_range:
  assumes "0 < concession_exponent cfg" "2 \<le> n" "0 \<le> r" "r \<le> n - 1"
  shows "th cfg r n =
           Inr ((real_of_int (n - r - 1) / real_of_int (n - 1)) powr concession_exponent cfg)"
proof -
  let ?b = "real_of_int (n - r - 1) / real_of_int (n - 1)"
  have b: "0 \<le> ?b" "?b \<le> 1"
    using assms by simp_all
  have "\<bar>?b\<bar> \<le> 1"
    using b by (simp only: abs_of_nonneg)
  then have "?b powr concession_exponent cfg \<le> 1"
    using assms(1) by (intro powr_le1) simp_all
  moreover have "0 \<le> ?b powr concession_exponent cfg"
    by simp
  ultimately have "pow_result (?b powr concession_exponent cfg)
                     = Inr (?b powr concession_exponent cfg)"
    by (intro pow_result_small) simp
  then show ?thesis
    using assms b by (auto simp add: th_def float_pow_def)
qed

lemma th_base_mono:
  assumes "2 \<le> n" "r \<le> r'" "r' \<le> n - 1"
  shows "real_of_int (n - r' - 1) / real_of_int (n - 1)
           \<le> real_of_int (n - r - 1) / real_of_int (n - 1)"
  using assms by (intro divide_right_mono) simp_all

text \<open>
  The definitions and the rounding rules that evaluating a callback at a concrete input
  unfolds.
\<close>

lemmas rnd_binades =
  rnd_zero
  rnd_above_one [where n = 0] rnd_above_one [where n = 1] rnd_above_one [where n = 2]
  rnd_above_one [where n = 3] rnd_above_one [where n = 4] rnd_above_one [where n = 5]
  rnd_below_one [where n = 1] rnd_below_one [where n = 2] rnd_below_one [where n = 3]
  rnd_below_one [where n = 4] rnd_below_one [where n = 5] rnd_below_one [where n = 6]

lemmas number_defs =
  fsub_def fgt_def fge_def inf_times_def py_max_def py_min_def float_pow_def
  pow_result_small fl_finite rnd_binades rne_def

lemmas agent_defs =
  needed_def is_selling_def SimpleAgent_respond_def best_offer_def th_def scaled_down_def
  scaled_up_def price_range_def is_good_price_def find_good_price_def propose_def
  BetterAgent_respond_def AdaptiveAgent_respond_def LearningAgent_respond_def dd_get_def
  dd_obs_def Let_def

lemmas example_defs =
  default_params_def linear_params_def LearningAgent_init_def seller_world_def
  buyer_world_def idle_world_def selling_ami_def buying_ami_def purchase_ami_def
  offer_of_def sale_to_def

lemmas lifetime_defs =
  run_def LearningAgent_step_def AdaptiveAgent_step_def SimpleAgent_step_def
  LearningAgent_on_negotiation_success_def SimpleAgent_on_negotiation_success_def

subsection \<open>The band of the price range\<close>

text \<open>
  A slack of \<open>1 / 2 ^ 51\<close> or more keeps the band at a legal bound of 1 or more: the
  rounding error of each operation is below what the slack moves.
\<close>

lemma rnd_error_numeral:
  "\<bar>rnd x - x\<bar> \<le> \<bar>x\<bar> / 9007199254740992 + 1 / 1298074214633706907132624082305024"
proof -
  have "(2::real) powi (- 1075) \<le> 1 / 2 ^ 110"
    by (simp add: power_int_minus_divide)
  moreover have "\<bar>x\<bar> * 2 powi (- 53) = \<bar>x\<bar> / 9007199254740992"
    by (simp add: power_int_minus_divide)
  ultimately show ?thesis
    using rnd_error_bound [of x] by simp
qed

lemma dmax_pos: "1 \<le> dmax"
  using dmax_large by (simp add: order_trans [of 1 "2 ^ 1023"])

lemma one_minus_slack:
  assumes "1 / 2 ^ 51 \<le> r"
  shows "rnd (1 - r) \<le> 1 - 1 / 2 ^ 52"
proof -
  have r: "1 / 2251799813685248 \<le> r" using assms by simp
  have "rnd (1 - r) \<le> 1 - 1 / 4503599627370496"
  proof (cases "0 \<le> 1 - r")
    case True
    then have "\<bar>1 - r\<bar> / 9007199254740992 = 1 / 9007199254740992 - r / 9007199254740992"
      by (simp add: diff_divide_distrib)
    then show ?thesis using r rnd_error_numeral [of "1 - r"] by linarith
  next
    case False
    then have "rnd (1 - r) \<le> 0" by (intro rnd_nonpos) simp
    then show ?thesis by simp
  qed
  then show ?thesis by simp
qed

lemma one_plus_slack:
  assumes "1 / 2 ^ 51 \<le> r"
  shows "1 + 1 / 2 ^ 52 \<le> rnd (1 + r)"
proof -
  have r: "1 / 2251799813685248 \<le> r" using assms by simp
  then have "\<bar>1 + r\<bar> / 9007199254740992 = 1 / 9007199254740992 + r / 9007199254740992"
    by (simp add: add_divide_distrib)
  then have "1 + 1 / 4503599627370496 \<le> rnd (1 + r)"
    using r rnd_error_numeral [of "1 + r"] by linarith
  then show ?thesis by simp
qed

lemma scaled_below:
  assumes "1 \<le> mx" "mx \<le> dmax" "c \<le> 1 - 1 / 2 ^ 52"
  shows "flt (fl (mx * c)) (Fin mx)"
proof -
  have lt: "rnd (mx * c) < mx"
  proof (cases "0 \<le> mx * c")
    case True
    have "mx * c \<le> mx * (1 - 1 / 2 ^ 52)"
      using assms(1,3) by (intro mult_left_mono) simp_all
    then have le: "mx * c \<le> mx - mx / 4503599627370496"
      by (simp add: algebra_simps)
    have "\<bar>mx * c\<bar> = mx * c" using True by simp
    then show ?thesis
      using le assms(1) rnd_error_numeral [of "mx * c"] by linarith
  next
    case False
    then have "rnd (mx * c) \<le> 0" by (intro rnd_nonpos) simp
    then show ?thesis using assms(1) by simp
  qed
  then show ?thesis
    using assms(2) by (simp add: fl_def Let_def)
qed

lemma scaled_above:
  assumes "1 \<le> mn" "1 + 1 / 2 ^ 52 \<le> c"
  shows "flt (Fin mn) (fl (mn * c))"
proof -
  have "mn * (1 + 1 / 2 ^ 52) \<le> mn * c"
    using assms by (intro mult_left_mono) simp_all
  then have ge: "mn + mn / 4503599627370496 \<le> mn * c"
    by (simp add: algebra_simps)
  then have "\<bar>mn * c\<bar> = mn * c"
    using assms(1) by simp
  then have "mn < rnd (mn * c)"
    using ge assms(1) rnd_error_numeral [of "mn * c"] by linarith
  then show ?thesis
    using assms(1) dmax_pos by (simp add: fl_def Let_def)
qed

lemma band_selling_threshold:
  assumes "fle (Fin (1 / 2 ^ 51)) rs" "1 \<le> mx" "mx \<le> dmax"
  shows "flt (fmul (Fin mx) (fsub (Fin 1) rs)) (Fin mx)"
proof (cases rs)
  case (Fin r)
  then have r: "1 / 2 ^ 51 \<le> r" using assms(1) by simp
  have c: "rnd (1 - r) \<le> 1 - 1 / 2 ^ 52" using r by (rule one_minus_slack)
  moreover have "(1::real) - 1 / 2 ^ 52 \<le> 1" by simp
  ultimately have "rnd (1 - r) \<le> dmax" using dmax_pos by linarith
  then have "fl (1 - r) = NInf \<or> fl (1 - r) = Fin (rnd (1 - r))"
    by (simp add: fl_def Let_def)
  then show ?thesis
  proof
    assume "fl (1 - r) = NInf"
    then show ?thesis using Fin assms(2) by (simp add: fsub_def inf_times_def)
  next
    assume "fl (1 - r) = Fin (rnd (1 - r))"
    then show ?thesis
      using Fin scaled_below [OF assms(2,3) c] by (simp add: fsub_def)
  qed
next
  case PInf
  then show ?thesis using assms(2) by (simp add: fsub_def inf_times_def)
next
  case NInf
  then show ?thesis using assms(1) by simp
next
  case NaN
  then show ?thesis using assms(1) by simp
qed

lemma band_buying_threshold:
  assumes "fle (Fin (1 / 2 ^ 51)) rs" "1 \<le> mn"
  shows "flt (Fin mn) (fmul (Fin mn) (fadd (Fin 1) rs))"
proof (cases rs)
  case (Fin r)
  then have r: "1 / 2 ^ 51 \<le> r" using assms(1) by simp
  have c: "1 + 1 / 2 ^ 52 \<le> rnd (1 + r)" using r by (rule one_plus_slack)
  moreover have "(0::real) \<le> 1 + 1 / 2 ^ 52" by simp
  ultimately have "- dmax \<le> rnd (1 + r)" using dmax_pos by linarith
  then have "fl (1 + r) = PInf \<or> fl (1 + r) = Fin (rnd (1 + r))"
    by (simp add: fl_def Let_def)
  then show ?thesis
  proof
    assume "fl (1 + r) = PInf"
    then show ?thesis using Fin assms(2) by (simp add: inf_times_def)
  next
    assume "fl (1 + r) = Fin (rnd (1 + r))"
    then show ?thesis
      using Fin scaled_above [OF assms(2) c] by simp
  qed
next
  case PInf
  then show ?thesis using assms(2) by (simp add: inf_times_def)
next
  case NInf
  then show ?thesis using assms(1) by simp
next
  case NaN
  then show ?thesis using assms(1) by simp
qed

lemma band_kept_selling:
  assumes "fle (Fin (1 / 2 ^ 51)) rs" "1 \<le> mx" "mx \<le> dmax"
  shows "fmul (Fin mx) (fsub (Fin 1) rs) \<noteq> Fin mx"
  using band_selling_threshold [OF assms] by auto

lemma band_kept_buying:
  assumes "fle (Fin (1 / 2 ^ 51)) rs" "1 \<le> mn"
  shows "fmul (Fin mn) (fadd (Fin 1) rs) \<noteq> Fin mn"
  using band_buying_threshold [OF assms] by auto

text \<open>
  As rounding is monotone, a positive slack never moves the bound the wrong way: the band
  is lost only where the rounded bound is the legal bound itself.
\<close>

lemma rnd_one: "rnd 1 = 1"
  by (simp add: rnd_above_one [where n = 0] rne_def Let_def)

lemma band_down:
  assumes "fgt rs (Fin 0)" "0 < mx" "is_double mx"
    and "fmul (Fin mx) (fsub (Fin 1) rs) \<noteq> Fin mx"
  shows "flt (fmul (Fin mx) (fsub (Fin 1) rs)) (Fin mx)"
proof (cases rs)
  case (Fin r)
  then have r: "0 < r" using assms(1) by (simp add: fgt_def)
  have mx: "rnd mx = mx" "mx \<le> dmax"
    using assms(2,3) by (simp_all add: is_double_def)
  have "rnd (1 - r) \<le> rnd 1" using r by (intro rnd_mono) simp
  then have c: "rnd (1 - r) \<le> 1" by (simp add: rnd_one)
  then have "rnd (1 - r) \<le> dmax" using dmax_pos by linarith
  then have "fl (1 - r) = NInf \<or> fl (1 - r) = Fin (rnd (1 - r))"
    by (simp add: fl_def Let_def)
  then show ?thesis
  proof
    assume "fl (1 - r) = NInf"
    then show ?thesis using Fin assms(2) by (simp add: fsub_def inf_times_def)
  next
    assume f: "fl (1 - r) = Fin (rnd (1 - r))"
    have "mx * rnd (1 - r) \<le> mx * 1"
      using c assms(2) by (intro mult_left_mono) simp_all
    then have "rnd (mx * rnd (1 - r)) \<le> rnd mx"
      by (intro rnd_mono) simp
    then have le: "rnd (mx * rnd (1 - r)) \<le> mx" using mx by simp
    have "fl (mx * rnd (1 - r)) \<noteq> Fin mx"
      using assms(4) Fin f by (simp add: fsub_def)
    then have "flt (fl (mx * rnd (1 - r))) (Fin mx)"
      using le mx(2) by (auto simp add: fl_def Let_def)
    then show ?thesis using Fin f by (simp add: fsub_def)
  qed
next
  case PInf
  then show ?thesis using assms(2) by (simp add: fsub_def inf_times_def)
next
  case NInf
  then show ?thesis using assms(1) by (simp add: fgt_def)
next
  case NaN
  then show ?thesis using assms(1) by (simp add: fgt_def)
qed

lemma band_up:
  assumes "fgt rs (Fin 0)" "0 < mn" "is_double mn"
    and "fmul (Fin mn) (fadd (Fin 1) rs) \<noteq> Fin mn"
  shows "flt (Fin mn) (fmul (Fin mn) (fadd (Fin 1) rs))"
proof (cases rs)
  case (Fin r)
  then have r: "0 < r" using assms(1) by (simp add: fgt_def)
  have mn: "rnd mn = mn"
    using assms(3) by (simp add: is_double_def)
  have "rnd 1 \<le> rnd (1 + r)" using r by (intro rnd_mono) simp
  then have c: "1 \<le> rnd (1 + r)" by (simp add: rnd_one)
  then have "- dmax \<le> rnd (1 + r)" using dmax_pos by linarith
  then have "fl (1 + r) = PInf \<or> fl (1 + r) = Fin (rnd (1 + r))"
    by (simp add: fl_def Let_def)
  then show ?thesis
  proof
    assume "fl (1 + r) = PInf"
    then show ?thesis using Fin assms(2) by (simp add: inf_times_def)
  next
    assume f: "fl (1 + r) = Fin (rnd (1 + r))"
    have "mn * 1 \<le> mn * rnd (1 + r)"
      using c assms(2) by (intro mult_left_mono) simp_all
    then have "rnd mn \<le> rnd (mn * rnd (1 + r))"
      by (intro rnd_mono) simp
    then have le: "mn \<le> rnd (mn * rnd (1 + r))" using mn by simp
    have "fl (mn * rnd (1 + r)) \<noteq> Fin mn"
      using assms(4) Fin f by simp
    then have "flt (Fin mn) (fl (mn * rnd (1 + r)))"
      using le assms(2) dmax_pos by (auto simp add: fl_def Let_def)
    then show ?thesis using Fin f by simp
  qed
next
  case PInf
  then show ?thesis using assms(2) by (simp add: inf_times_def)
next
  case NInf
  then show ?thesis using assms(1) by (simp add: fgt_def)
next
  case NaN
  then show ?thesis using assms(1) by (simp add: fgt_def)
qed

section \<open>The concession threshold\<close>

text \<open>
  Claim C2. For a positive exponent and at least two rounds, the threshold at every round
  index from \<open>0\<close> to \<open>n - 1\<close> is \<open>((n - r - 1) / (n - 1))\<close> to the power of the exponent; it
  does not increase as the round index increases over that range; it is \<open>1\<close> at round \<open>0\<close>
  and \<open>0\<close> at round \<open>n - 1\<close>. (The quotient and the power are exact reals.)
\<close>

theorem th_concession_curve:
  assumes "0 < concession_exponent cfg" and "2 \<le> n"
  shows "(\<forall>r. 0 \<le> r \<and> r \<le> n - 1 \<longrightarrow>
            th cfg r n =
              Inr ((real_of_int (n - r - 1) / real_of_int (n - 1)) powr concession_exponent cfg))
       \<and> (\<forall>r r'. 0 \<le> r \<and> r \<le> r' \<and> r' \<le> n - 1 \<longrightarrow>
            (\<exists>t t'. th cfg r n = Inr t \<and> th cfg r' n = Inr t' \<and> t' \<le> t))
       \<and> th cfg 0 n = Inr 1
       \<and> th cfg (n - 1) n = Inr 0"
proof (intro conjI allI impI)
  fix r assume "0 \<le> r \<and> r \<le> n - 1"
  then show "th cfg r n =
      Inr ((real_of_int (n - r - 1) / real_of_int (n - 1)) powr concession_exponent cfg)"
    using assms th_in_range by blast
next
  fix r r' assume h: "0 \<le> r \<and> r \<le> r' \<and> r' \<le> n - 1"
  let ?b = "\<lambda>k. real_of_int (n - k - 1) / real_of_int (n - 1)"
  have 1: "th cfg r n = Inr (?b r powr concession_exponent cfg)"
    using assms h th_in_range [of cfg n r] by linarith
  have 2: "th cfg r' n = Inr (?b r' powr concession_exponent cfg)"
    using assms h th_in_range [of cfg n r'] by linarith
  have "0 \<le> ?b r'" using assms h by simp
  moreover have "?b r' \<le> ?b r" using assms h th_base_mono by blast
  ultimately have "?b r' powr concession_exponent cfg \<le> ?b r powr concession_exponent cfg"
    using assms(1) by (intro powr_mono2) simp_all
  with 1 2 show "\<exists>t t'. th cfg r n = Inr t \<and> th cfg r' n = Inr t' \<and> t' \<le> t"
    by blast
next
  show "th cfg 0 n = Inr 1"
    using assms th_in_range [of cfg n 0] by simp
next
  show "th cfg (n - 1) n = Inr 0"
    using assms th_in_range [of cfg n "n - 1"] by simp
qed

text \<open>
  The default exponent \<open>0.2\<close> and eleven rounds: the threshold at round 5 is
  \<open>(5 / 10) ** 0.2\<close>, as in the scenario of the specification.
\<close>

theorem th_concession_curve_witness:
  "0 < concession_exponent default_params \<and> (2::int) \<le> 11
   \<and> th default_params 5 11 = Inr ((1 / 2) powr (2 / 10))
   \<and> (\<exists>t t'. th default_params 5 11 = Inr t \<and> th default_params 10 11 = Inr t' \<and> t' \<le> t)
   \<and> th default_params 0 11 = Inr 1
   \<and> th default_params 10 11 = Inr 0"
proof -
  have h1: "0 < concession_exponent default_params" by (simp add: default_params_def)
  have h2: "(2::int) \<le> 11" by simp
  note c = th_concession_curve [OF h1 h2]
  have a: "th default_params 5 11 = Inr ((1 / 2) powr (2 / 10))"
    using c by (simp add: default_params_def)
  have b: "\<exists>t t'. th default_params 5 11 = Inr t \<and> th default_params 10 11 = Inr t' \<and> t' \<le> t"
    using c by simp
  show ?thesis using h1 a b c by simp
qed

section \<open>The need tracker\<close>

text \<open>
  Claim C6, as amended. At the start of a period, before any agreement, the remaining need
  is the sum of the exogenous input quantity and the exogenous output quantity, whatever
  the negotiation it is asked for.
\<close>

theorem needed_at_period_start:
  "needed w (LearningAgent_step s) negotiator_id =
     current_exogenous_input_quantity w + current_exogenous_output_quantity w"
  by (simp add: needed_def LearningAgent_step_def AdaptiveAgent_step_def SimpleAgent_step_def)

text \<open>
  Claim C6 as stated fails: with an exogenous input of 3 and an exogenous output of 5 the
  remaining need at period start is 8, which is neither quantity alone.
\<close>

theorem needed_at_period_start_counterexample:
  "needed \<lparr>current_exogenous_input_quantity = 3, current_exogenous_output_quantity = 5,
           current_step = 0, my_output_product = 1\<rparr>
     (LearningAgent_step LearningAgent_init) (Some ''n1'') = 8"
  by (simp add: needed_def LearningAgent_step_def AdaptiveAgent_step_def SimpleAgent_step_def
      LearningAgent_init_def)

text \<open>
  Claim C7. When the remaining need is zero or negative, \<^verbatim>\<open>propose\<close> returns no offer and
  leaves the agent untouched, and \<^verbatim>\<open>respond\<close> returns \<^verbatim>\<open>END_NEGOTIATION\<close> for every offer;
  no price is computed on the way: whatever the number of rounds, no threshold error arises,
  and the agent after \<^verbatim>\<open>respond\<close> differs only by the record of the offered price, with no
  key inserted by a price range.
\<close>

theorem no_need_ends_negotiation:
  assumes "needed w s (Some negotiator_id) \<le> 0"
  shows "propose cfg w s negotiator_id get_ami step = (Inr None, s)
       \<and> LearningAgent_respond cfg w s negotiator_id (Some a) step offer =
           (Inr END_NEGOTIATION,
            if is_selling w a
            then s\<lparr>best_selling := py_max (Fin (UNIT_PRICE offer)) (best_selling s),
                   best_opp_selling := (best_opp_selling s)
                     (buyer a \<mapsto> py_max (Fin (UNIT_PRICE offer))
                                  (py_max (Fin (UNIT_PRICE offer)) (best_selling s)))\<rparr>
            else s\<lparr>best_buying := py_min (Fin (UNIT_PRICE offer)) (best_buying s),
                   best_opp_buying := (best_opp_buying s)
                     (seller a \<mapsto> py_min (Fin (UNIT_PRICE offer))
                                  (py_min (Fin (UNIT_PRICE offer)) (best_buying s)))\<rparr>)"
  using assms
  by (simp add: propose_def best_offer_def LearningAgent_respond_def AdaptiveAgent_respond_def
      BetterAgent_respond_def SimpleAgent_respond_def Let_def)

theorem no_need_ends_negotiation_witness:
  "needed idle_world LearningAgent_init (Some ''n1'') \<le> 0
   \<and> propose default_params idle_world LearningAgent_init ''n1''
       (Some (selling_ami ''P1'' 11)) 0 = (Inr None, LearningAgent_init)
   \<and> fst (LearningAgent_respond default_params idle_world LearningAgent_init ''n1''
            (Some (selling_ami ''P1'' 11)) 0 (offer_of 5 18)) = Inr END_NEGOTIATION"
proof -
  have h: "needed idle_world LearningAgent_init (Some ''n1'') \<le> 0"
    by (simp add: needed_def example_defs)
  show ?thesis
    using h no_need_ends_negotiation [OF h, of default_params "Some (selling_ami ''P1'' 11)" 0
        "selling_ami ''P1'' 11" "offer_of 5 18"]
    by simp
qed

section \<open>propose reads only\<close>

text \<open>
  Claim C9. Whatever its arguments and whether it returns an offer, no offer or an error,
  \<^verbatim>\<open>propose\<close> leaves the secured quantity and every best-price memory as they were, the
  per-partner memories being observed as mappings with their seed values.
\<close>

theorem propose_read_only: "view (snd (propose cfg w s negotiator_id get_ami step)) = view s"
  by (auto simp add: propose_def split: option.splits prod.splits sum.splits
      dest: find_good_price_view)

section \<open>The price range\<close>

text \<open>
  Claim C3, as amended. When the range slack is positive, the legal bound that the band is
  taken from (the legal maximum in a sale, the legal minimum in a purchase) is a positive
  double, and the band is not lost to rounding at that bound (\<open>max * (1 - slack)\<close> is
  not \<open>max\<close> in a sale, \<open>min * (1 + slack)\<close> is not \<open>min\<close> in a purchase), the interval
  of the price range has its low end strictly below its high end, in every state of the
  price memories.
\<close>

theorem price_range_band:
  assumes "fgt (range_slack cfg) (Fin 0)"
    and "price_min_value a \<le> price_max_value a"
    and "if is_selling w a
         then 0 < price_max_value a \<and> is_double (price_max_value a)
              \<and> fmul (Fin (price_max_value a)) (fsub (Fin 1) (range_slack cfg))
                    \<noteq> Fin (price_max_value a)
         else 0 < price_min_value a \<and> is_double (price_min_value a)
              \<and> fmul (Fin (price_min_value a)) (fadd (Fin 1) (range_slack cfg))
                    \<noteq> Fin (price_min_value a)"
  shows "flt (fst (fst (price_range cfg w s a))) (snd (fst (price_range cfg w s a)))"
proof (cases "is_selling w a")
  case True
  then show ?thesis
    using assms(1,3)
    by (simp add: price_range_def Let_def split_beta py_min_below band_down
        del: py_max_list.simps)
next
  case False
  then show ?thesis
    using assms(1,3)
    by (simp add: price_range_def Let_def split_beta py_max_above band_up
        del: py_min_list.simps)
qed

text \<open>
  With the default slack 0.03, in a period in which a partner has offered the best legal price
  (for a quantity beyond the need, so that the offer was rejected): the low end of a sale
  at 10 to 20 is the band's bound \<open>20 * (1 - 0.03)\<close>, the double next to 19.4, and the
  high end of a purchase at 10 to 20 is \<open>10 * (1 + 0.03)\<close>, the double next to 10.3.
\<close>

theorem price_range_band_witness:
  "fgt (range_slack linear_params) (Fin 0)
   \<and> price_min_value (selling_ami ''P1'' 11) \<le> price_max_value (selling_ami ''P1'' 11)
   \<and> is_selling seller_world (selling_ami ''P1'' 11)
   \<and> 0 < price_max_value (selling_ami ''P1'' 11)
   \<and> is_double (price_max_value (selling_ami ''P1'' 11))
   \<and> fmul (Fin (price_max_value (selling_ami ''P1'' 11)))
        (fsub (Fin 1) (range_slack linear_params))
       = Fin (2730307274093363 / 140737488355328)
   \<and> fst (price_range linear_params seller_world
          (run linear_params
             [Step, Respond seller_world ''n2'' (Some (selling_ami ''P2'' 11)) 0 (offer_of 11 20)])
          (selling_ami ''P1'' 11))
       = (Fin (2730307274093363 / 140737488355328), Fin 20)
   \<and> flt (Fin (2730307274093363 / 140737488355328)) (Fin 20)
   \<and> price_min_value (purchase_ami ''P1'' 11) \<le> price_max_value (purchase_ami ''P1'' 11)
   \<and> \<not> is_selling buyer_world (purchase_ami ''P1'' 11)
   \<and> 0 < price_min_value (purchase_ami ''P1'' 11)
   \<and> is_double (price_min_value (purchase_ami ''P1'' 11))
   \<and> fmul (Fin (price_min_value (purchase_ami ''P1'' 11)))
        (fadd (Fin 1) (range_slack linear_params))
       = Fin (2899192260119757 / 281474976710656)
   \<and> fst (price_range linear_params buyer_world
          (run linear_params
             [Step, Respond buyer_world ''n2'' (Some (purchase_ami ''P2'' 11)) 0 (offer_of 11 10)])
          (purchase_ami ''P1'' 11))
       = (Fin 10, Fin (2899192260119757 / 281474976710656))
   \<and> flt (Fin 10) (Fin (2899192260119757 / 281474976710656))"
proof -
  let ?S = "run linear_params
              [Step, Respond seller_world ''n2'' (Some (selling_ami ''P2'' 11)) 0 (offer_of 11 20)]"
  let ?B = "run linear_params
              [Step, Respond buyer_world ''n2'' (Some (purchase_ami ''P2'' 11)) 0 (offer_of 11 10)]"
  have slack: "fgt (range_slack linear_params) (Fin 0)"
    by (simp add: linear_params_def fgt_def)
  have s1: "price_min_value (selling_ami ''P1'' 11) \<le> price_max_value (selling_ami ''P1'' 11)"
    by (simp add: selling_ami_def)
  have s2: "is_selling seller_world (selling_ami ''P1'' 11)"
    by (simp add: is_selling_def seller_world_def selling_ami_def)
  have s3: "0 < price_max_value (selling_ami ''P1'' 11)"
    by (simp add: selling_ami_def)
  have s4: "is_double (price_max_value (selling_ami ''P1'' 11))"
    by (simp add: selling_ami_def is_double_def dmax_def rnd_binades rne_def Let_def)
  have s5: "fmul (Fin (price_max_value (selling_ami ''P1'' 11)))
              (fsub (Fin 1) (range_slack linear_params))
            = Fin (2730307274093363 / 140737488355328)"
    by (simp add: number_defs example_defs Let_def)
  have s6: "if is_selling seller_world (selling_ami ''P1'' 11)
            then 0 < price_max_value (selling_ami ''P1'' 11)
                 \<and> is_double (price_max_value (selling_ami ''P1'' 11))
                 \<and> fmul (Fin (price_max_value (selling_ami ''P1'' 11)))
                      (fsub (Fin 1) (range_slack linear_params))
                    \<noteq> Fin (price_max_value (selling_ami ''P1'' 11))
            else 0 < price_min_value (selling_ami ''P1'' 11)
                 \<and> is_double (price_min_value (selling_ami ''P1'' 11))
                 \<and> fmul (Fin (price_min_value (selling_ami ''P1'' 11)))
                      (fadd (Fin 1) (range_slack linear_params))
                    \<noteq> Fin (price_min_value (selling_ami ''P1'' 11))"
    using s2 s3 s4 unfolding s5 by (simp add: selling_ami_def)
  have sv: "fst (price_range linear_params seller_world ?S (selling_ami ''P1'' 11))
              = (Fin (2730307274093363 / 140737488355328), Fin 20)"
    by (simp add: lifetime_defs number_defs agent_defs example_defs)
  have b1: "price_min_value (purchase_ami ''P1'' 11) \<le> price_max_value (purchase_ami ''P1'' 11)"
    by (simp add: purchase_ami_def)
  have b2: "\<not> is_selling buyer_world (purchase_ami ''P1'' 11)"
    by (simp add: is_selling_def buyer_world_def purchase_ami_def)
  have b3: "0 < price_min_value (purchase_ami ''P1'' 11)"
    by (simp add: purchase_ami_def)
  have b4: "is_double (price_min_value (purchase_ami ''P1'' 11))"
    by (simp add: purchase_ami_def is_double_def dmax_def rnd_binades rne_def Let_def)
  have b5: "fmul (Fin (price_min_value (purchase_ami ''P1'' 11)))
              (fadd (Fin 1) (range_slack linear_params))
            = Fin (2899192260119757 / 281474976710656)"
    by (simp add: number_defs example_defs Let_def)
  have b6: "if is_selling buyer_world (purchase_ami ''P1'' 11)
            then 0 < price_max_value (purchase_ami ''P1'' 11)
                 \<and> is_double (price_max_value (purchase_ami ''P1'' 11))
                 \<and> fmul (Fin (price_max_value (purchase_ami ''P1'' 11)))
                      (fsub (Fin 1) (range_slack linear_params))
                    \<noteq> Fin (price_max_value (purchase_ami ''P1'' 11))
            else 0 < price_min_value (purchase_ami ''P1'' 11)
                 \<and> is_double (price_min_value (purchase_ami ''P1'' 11))
                 \<and> fmul (Fin (price_min_value (purchase_ami ''P1'' 11)))
                      (fadd (Fin 1) (range_slack linear_params))
                    \<noteq> Fin (price_min_value (purchase_ami ''P1'' 11))"
    using b2 b3 b4 unfolding b5 by (simp add: purchase_ami_def)
  have bv: "fst (price_range linear_params buyer_world ?B (purchase_ami ''P1'' 11))
              = (Fin 10, Fin (2899192260119757 / 281474976710656))"
    by (simp add: lifetime_defs number_defs agent_defs example_defs)
  have "flt (Fin (2730307274093363 / 140737488355328)) (Fin 20)"
    using price_range_band [OF slack s1 s6, of ?S] unfolding sv by simp
  moreover have "flt (Fin 10) (Fin (2899192260119757 / 281474976710656))"
    using price_range_band [OF slack b1 b6, of ?B] unfolding bv by simp
  ultimately show ?thesis
    using slack s1 s2 s3 s4 s5 sv b1 b2 b3 b4 b5 bv by blast
qed

text \<open>
  Claim C3 as stated fails: in a purchase with legal prices from 0 to 10 and the default
  range slack, once a partner has offered the price 0 the interval is \<open>(0, 0)\<close>.
\<close>

theorem price_range_band_counterexample:
  "fgt (range_slack default_params) (Fin 0)
   \<and> price_min_value (buying_ami ''P1'' 11) < price_max_value (buying_ami ''P1'' 11)
   \<and> fst (price_range default_params buyer_world
             (run default_params
                [Respond buyer_world ''n1'' (Some (buying_ami ''P1'' 11)) 0 (offer_of 5 0)])
             (buying_ami ''P1'' 11)) = (Fin 0, Fin 0)
   \<and> \<not> flt (Fin 0) (Fin 0)"
  by (simp add: lifetime_defs number_defs agent_defs example_defs)

text \<open>
  It fails with positive legal prices too when the slack is positive but below the spacing
  of the doubles at 1: with a slack of \<open>1 / 2 ^ 60\<close>, \<open>1 - slack\<close> is \<open>1\<close>, and in a sale at
  10 to 20, once a partner has offered 20 the interval is \<open>(20, 20)\<close>.
\<close>

theorem price_range_band_tiny_slack:
  "fgt (range_slack (linear_params\<lparr>range_slack := Fin (1 / 2 ^ 60)\<rparr>)) (Fin 0)
   \<and> price_min_value (selling_ami ''P1'' 11) < price_max_value (selling_ami ''P1'' 11)
   \<and> fst (price_range (linear_params\<lparr>range_slack := Fin (1 / 2 ^ 60)\<rparr>) seller_world
          (run linear_params
             [Step, Respond seller_world ''n2'' (Some (selling_ami ''P2'' 11)) 0 (offer_of 11 20)])
          (selling_ami ''P1'' 11)) = (Fin 20, Fin 20)
   \<and> \<not> flt (Fin 20) (Fin 20)"
  by (simp add: lifetime_defs number_defs agent_defs example_defs)

section \<open>Acceptance and the proposal target\<close>

text \<open>
  Claim C4 says that \<^verbatim>\<open>respond\<close> accepts an offer at the price that \<^verbatim>\<open>_find_good_price\<close>
  computes for the same interval and round. The two computations round differently. With
  a linear concession, an agent that sold to partner \<open>P1\<close> at 18 in an earlier period
  negotiates a sale at 10 to 20 with \<open>P1\<close> over three rounds: the interval starts at
  \<open>18 * (1 - 0.2)\<close>, and at round 1 the target is the double next to 17.2. An offer of 5
  units at exactly that price, with 10 units needed, is rejected: \<open>price - low\<close> is the
  double 2.799999999999999, below \<open>0.5 * (high - low)\<close>, the double next to 2.8.
\<close>

theorem target_price_rejected:
  "needed seller_world
     (run linear_params
        [Success seller_world (sale_to ''P1'' 5 18) (selling_ami ''P1'' 11), Step])
     (Some ''n1'') = 10
   \<and> fst (find_good_price linear_params seller_world
            (run linear_params
               [Success seller_world (sale_to ''P1'' 5 18) (selling_ami ''P1'' 11), Step])
            (selling_ami ''P1'' 3) 1)
       = Inr (Fin (4841369599423283 / 281474976710656))
   \<and> fst (LearningAgent_respond linear_params seller_world
            (run linear_params
               [Success seller_world (sale_to ''P1'' 5 18) (selling_ami ''P1'' 11), Step])
            ''n1'' (Some (selling_ami ''P1'' 3)) 1
            (offer_of 5 (4841369599423283 / 281474976710656)))
       = Inr REJECT_OFFER"
  by (simp add: lifetime_defs number_defs agent_defs example_defs)

section \<open>A negotiation of a single round\<close>

text \<open>
  Claim C8, as amended. In a negotiation of exactly one round and with a positive remaining
  need, \<^verbatim>\<open>propose\<close> fails with a division by zero, and so does \<^verbatim>\<open>respond\<close> to an offer
  whose quantity is within the need; either failure leaves the secured quantity and every
  best-price memory as they were, the per-partner memories being observed as mappings with
  their seed values.
\<close>

theorem single_round_fails:
  assumes "n_steps a = 1" and "0 < needed w s (Some negotiator_id)"
  shows "fst (propose cfg w s negotiator_id (Some a) step) = Inl ZeroDivisionError
       \<and> view (snd (propose cfg w s negotiator_id (Some a) step)) = view s
       \<and> (QUANTITY offer \<le> needed w s (Some negotiator_id) \<longrightarrow>
            fst (LearningAgent_respond cfg w s negotiator_id (Some a) step offer)
              = Inl ZeroDivisionError
          \<and> view (snd (LearningAgent_respond cfg w s negotiator_id (Some a) step offer))
              = view s)"
proof (intro conjI impI)
  have "fst (find_good_price cfg w s a step) = Inl ZeroDivisionError"
    using assms(1) by (simp add: find_good_price_def split_beta th_single_round)
  then obtain s' where "find_good_price cfg w s a step = (Inl ZeroDivisionError, s')"
    by (metis prod.collapse)
  then show "fst (propose cfg w s negotiator_id (Some a) step) = Inl ZeroDivisionError"
    using assms(2) by (simp add: propose_def best_offer_def Let_def)
  show "view (snd (propose cfg w s negotiator_id (Some a) step)) = view s"
    by (rule propose_view)
next
  assume q: "QUANTITY offer \<le> needed w s (Some negotiator_id)"
  have "fst (is_good_price cfg w s a step (UNIT_PRICE offer)) = Inl ZeroDivisionError"
    using assms(1) by (simp add: is_good_price_def split_beta th_single_round)
  then obtain s' where
    g: "is_good_price cfg w s a step (UNIT_PRICE offer) = (Inl ZeroDivisionError, s')"
    by (metis prod.collapse)
  then have r: "LearningAgent_respond cfg w s negotiator_id (Some a) step offer
                  = (Inl ZeroDivisionError, s')"
    using assms(2) q
    by (simp add: LearningAgent_respond_def AdaptiveAgent_respond_def BetterAgent_respond_def
        SimpleAgent_respond_def Let_def)
  show "fst (LearningAgent_respond cfg w s negotiator_id (Some a) step offer)
          = Inl ZeroDivisionError"
    using r by simp
  show "view (snd (LearningAgent_respond cfg w s negotiator_id (Some a) step offer)) = view s"
    using r g is_good_price_view by simp
qed

theorem single_round_fails_witness:
  "n_steps (selling_ami ''P1'' 1) = 1
   \<and> 0 < needed seller_world LearningAgent_init (Some ''n1'')
   \<and> QUANTITY (offer_of 5 18) \<le> needed seller_world LearningAgent_init (Some ''n1'')
   \<and> fst (propose default_params seller_world LearningAgent_init ''n1''
            (Some (selling_ami ''P1'' 1)) 0) = Inl ZeroDivisionError
   \<and> fst (LearningAgent_respond default_params seller_world LearningAgent_init ''n1''
            (Some (selling_ami ''P1'' 1)) 0 (offer_of 5 18)) = Inl ZeroDivisionError
   \<and> view (snd (LearningAgent_respond default_params seller_world LearningAgent_init ''n1''
            (Some (selling_ami ''P1'' 1)) 0 (offer_of 5 18))) = view LearningAgent_init"
proof -
  have h1: "n_steps (selling_ami ''P1'' 1) = 1"
    by (simp add: selling_ami_def)
  have h2: "0 < needed seller_world LearningAgent_init (Some ''n1'')"
    by (simp add: needed_def example_defs)
  have h3: "QUANTITY (offer_of 5 18) \<le> needed seller_world LearningAgent_init (Some ''n1'')"
    by (simp add: needed_def example_defs)
  show ?thesis
    using h1 h2 h3 single_round_fails [OF h1 h2, of default_params 0 "offer_of 5 18"] by blast
qed

text \<open>
  Claim C8 as stated fails: in a negotiation of one round, an agent that has secured all
  it needs answers an offer with \<^verbatim>\<open>END_NEGOTIATION\<close>, with no error, and records the
  offered price in its within-period memories.
\<close>

theorem single_round_counterexample:
  "n_steps (selling_ami ''P1'' 1) \<le> 1
   \<and> LearningAgent_respond default_params seller_world (LearningAgent_init\<lparr>secured := 10\<rparr>)
       ''n1'' (Some (selling_ami ''P1'' 1)) 0 (offer_of 5 18)
     = (Inr END_NEGOTIATION,
        LearningAgent_init\<lparr>secured := 10, best_selling := Fin 18,
                            best_opp_selling := [''P1'' \<mapsto> Fin 18]\<rparr>)"
  by (simp add: number_defs agent_defs example_defs)

section \<open>The cross-period memory is monotone\<close>

text \<open>
  Claim C5. Take any sequence of callbacks made on the agent after \<^verbatim>\<open>init\<close> (period
  boundaries, negotiation successes, and also proposals and responses) and any
  continuation of it. After the continuation \<^verbatim>\<open>_best_acc_selling\<close> and every
  \<^verbatim>\<open>_best_opp_acc_selling[partner]\<close> are no lower than before it, and \<^verbatim>\<open>_best_acc_buying\<close>
  and every \<^verbatim>\<open>_best_opp_acc_buying[partner]\<close> no higher; a period boundary resets none
  of them.
\<close>

theorem cross_period_memory_monotone:
  "fle (best_acc_selling (run cfg es)) (best_acc_selling (run cfg (es @ es')))
   \<and> fle (dd_obs (Fin 0) (best_opp_acc_selling (run cfg es)) partner)
         (dd_obs (Fin 0) (best_opp_acc_selling (run cfg (es @ es'))) partner)
   \<and> fle (best_acc_buying (run cfg (es @ es'))) (best_acc_buying (run cfg es))
   \<and> fle (dd_obs PInf (best_opp_acc_buying (run cfg (es @ es'))) partner)
         (dd_obs PInf (best_opp_acc_buying (run cfg es)) partner)"
proof -
  have "tighter (acc_memory LearningAgent_init partner) (acc_memory (run cfg es) partner)"
    unfolding run_def using acc_memory_init by (rule acc_memory_events)
  then have "tighter (acc_memory (run cfg es) partner) (acc_memory (run cfg es) partner)"
    by (rule tighter_right_refl)
  then have "tighter (acc_memory (run cfg es) partner)
               (acc_memory (foldl (apply_event cfg) (run cfg es) es') partner)"
    by (rule acc_memory_events)
  then show ?thesis
    by (simp add: run_def acc_memory_def)
qed

section \<open>The within-period memory of a partner's offers\<close>

text \<open>
  Claim C1 says that \<^verbatim>\<open>respond\<close> sets \<^verbatim>\<open>_best_opp_selling[partner]\<close> to the maximum of
  the offered price and that partner's own previous value. The code takes the maximum
  with \<^verbatim>\<open>_best_selling\<close>, the best price of the period from any partner. At the start
  of a period, partner \<open>P2\<close> offers 19 and then partner \<open>P1\<close> offers 12, both at round 0 of
  a sale: before its offer the memory for \<open>P1\<close> reads 0, so the claim gives 12, and the code
  stores 19.
\<close>

theorem respond_best_opp_selling_evaluated:
  "dd_obs (Fin 0)
     (best_opp_selling
        (run default_params
           [Step, Respond seller_world ''n2'' (Some (selling_ami ''P2'' 11)) 0 (offer_of 5 19)]))
     ''P1'' = Fin 0
   \<and> py_max (Fin 12) (Fin 0) = Fin 12
   \<and> dd_obs (Fin 0)
     (best_opp_selling
        (run default_params
           [Step, Respond seller_world ''n2'' (Some (selling_ami ''P2'' 11)) 0 (offer_of 5 19),
            Respond seller_world ''n1'' (Some (selling_ami ''P1'' 11)) 0 (offer_of 5 12)]))
     ''P1'' = Fin 19"
  by (simp add: lifetime_defs number_defs agent_defs example_defs)

section \<open>Requests of partners that breached\<close>

text \<open>
  Claim C10. \<^verbatim>\<open>respond_to_negotiation_request\<close> returns \<^verbatim>\<open>None\<close> whenever the reports of
  the counterpart (the buyer of the annotation when \<^verbatim>\<open>is_buy\<close> is set, the seller
  otherwise) have a positive sum of breach levels over the last 25 of them; and an agent
  with no published reports is not breached, for any number of steps.
\<close>

theorem breached_partner_declined:
  "(\<forall>reports.
      reports_of_agent w (if is_buy ann then ann_buyer ann else ann_seller ann) = Some reports
      \<and> 0 < sum_list (map (\<lambda>kv. breach_level (snd kv)) (drop (length reports - 25) reports))
      \<longrightarrow> respond_to_negotiation_request w ann super_response = Inr None)
   \<and> (reports_of_agent w agent_id = None \<longrightarrow> \<not> is_breached_last_n_steps w agent_id nsteps)"
proof (intro conjI allI impI)
  fix reports
  assume "reports_of_agent w (if is_buy ann then ann_buyer ann else ann_seller ann) = Some reports
      \<and> 0 < sum_list (map (\<lambda>kv. breach_level (snd kv)) (drop (length reports - 25) reports))"
  then have "is_breached_last_n_steps w (if is_buy ann then ann_buyer ann else ann_seller ann) 25"
    using breached_iff by blast
  then show "respond_to_negotiation_request w ann super_response = Inr None"
    by (simp add: respond_to_negotiation_request_def Let_def)
next
  assume "reports_of_agent w agent_id = None"
  then show "\<not> is_breached_last_n_steps w agent_id nsteps"
    by (simp add: is_breached_last_n_steps_def)
qed

theorem breached_partner_declined_witness:
  "reports_of_agent breach_world ''P1''
     = Some [(0, \<lparr>breach_level = 0\<rparr>), (1, \<lparr>breach_level = 1 / 2\<rparr>)]
   \<and> respond_to_negotiation_request breach_world (request_from ''P1'') (Some ''negotiator'')
       = Inr None
   \<and> reports_of_agent breach_world ''P2'' = None
   \<and> \<not> is_breached_last_n_steps breach_world ''P2'' 25"
proof -
  have h1: "reports_of_agent breach_world ''P1''
     = Some [(0, \<lparr>breach_level = 0\<rparr>), (1, \<lparr>breach_level = 1 / 2\<rparr>)]"
    by (simp add: breach_world_def)
  have h2: "reports_of_agent breach_world ''P2'' = None"
    by (simp add: breach_world_def)
  show ?thesis
    using h1 h2
      breached_partner_declined [of breach_world "request_from ''P1''" "Some ''negotiator''"
        "''P2''" 25]
    by (simp add: request_from_def)
qed

end
